theory Spec2Isabelle
  imports Complex_Main "HOL-Library.Sublist"
begin

section \<open>Python string primitives used by the two benchmark drivers\<close>

text \<open>
  Both drivers (\<^verbatim>\<open>cliqueK_starter.py\<close> and \<^verbatim>\<open>sat_starter.py\<close>) work on Python
  \<^verbatim>\<open>str\<close> values. A string is modelled as a \<^typ>\<open>string\<close>, one \<^typ>\<open>char\<close> per code
  point, so the model covers the code points below 256. The character classes below are
  Python's own on that range.
\<close>

definition py_isspace :: "char \<Rightarrow> bool" where
  "py_isspace c = ((of_char c :: nat) \<in> {9, 10, 11, 12, 13, 28, 29, 30, 31, 32, 133, 160})"

definition py_isdigit :: "char \<Rightarrow> bool" where
  "py_isdigit c = (48 \<le> (of_char c :: nat) \<and> (of_char c :: nat) \<le> 57)"

definition digit_val :: "char \<Rightarrow> nat" where
  "digit_val c = (of_char c :: nat) - 48"

text \<open>\<^verbatim>\<open>s.strip()\<close>: whitespace removed at both ends.\<close>

definition py_strip :: "string \<Rightarrow> string" where
  "py_strip s = rev (dropWhile py_isspace (rev (dropWhile py_isspace s)))"

text \<open>\<^verbatim>\<open>sub in s\<close>: \<open>sub\<close> occurs in \<open>s\<close> as a contiguous block.\<close>

fun py_in :: "string \<Rightarrow> string \<Rightarrow> bool" where
  "py_in sub [] = (sub = [])"
| "py_in sub (c # cs) = (prefix sub (c # cs) \<or> py_in sub cs)"

text \<open>\<^verbatim>\<open>s.startswith(p)\<close>.\<close>

definition startswith :: "string \<Rightarrow> string \<Rightarrow> bool" where
  "startswith s p = prefix p s"

text \<open>\<^verbatim>\<open>s.split(sep)\<close> for a one-character separator: never empty, keeps empty fields.\<close>

fun py_split_char :: "char \<Rightarrow> string \<Rightarrow> string list" where
  "py_split_char sep [] = [[]]"
| "py_split_char sep (c # cs) =
     (if c = sep then [] # py_split_char sep cs
      else (case py_split_char sep cs of
              [] \<Rightarrow> [[c]]
            | x # xs \<Rightarrow> (c # x) # xs))"

text \<open>\<^verbatim>\<open>s.split()\<close>: the maximal runs of non-whitespace characters.\<close>

fun py_split :: "string \<Rightarrow> string list" where
  "py_split [] = []"
| "py_split (c # cs) =
     (if py_isspace c then py_split cs
      else (case cs of
              [] \<Rightarrow> [[c]]
            | d # ds \<Rightarrow>
                if py_isspace d then [c] # py_split cs
                else (case py_split cs of
                        [] \<Rightarrow> [[c]]
                      | x # xs \<Rightarrow> (c # x) # xs)))"

text \<open>
  \<^verbatim>\<open>s.split(':', 1)[1]\<close>: what follows the first separator; \<^verbatim>\<open>IndexError\<close>
  (here \<open>None\<close>) when there is no separator.
\<close>

fun after_first :: "char \<Rightarrow> string \<Rightarrow> string option" where
  "after_first sep [] = None"
| "after_first sep (c # cs) = (if c = sep then Some cs else after_first sep cs)"

text \<open>
  \<^verbatim>\<open>int(s)\<close> in base ten: surrounding whitespace is dropped, one sign is allowed, and
  the digits may be grouped by single underscores. \<open>None\<close> stands for \<^verbatim>\<open>ValueError\<close>.
  CPython also raises \<^verbatim>\<open>ValueError\<close> when the text has more digits than
  \<^verbatim>\<open>sys.get_int_max_str_digits()\<close>, which is 4300 unless the interpreter is
  started with another limit; neither driver changes it.
\<close>

definition int_max_str_digits :: int where
  "int_max_str_digits = 4300"

fun parse_digits :: "nat \<Rightarrow> string \<Rightarrow> nat option" where
  "parse_digits acc [] = Some acc"
| "parse_digits acc [c] = (if py_isdigit c then Some (10 * acc + digit_val c) else None)"
| "parse_digits acc (c # d # ds) =
     (if py_isdigit c then parse_digits (10 * acc + digit_val c) (d # ds)
      else if c = CHR ''_'' \<and> py_isdigit d then parse_digits (10 * acc + digit_val d) ds
      else None)"

definition parse_nat :: "string \<Rightarrow> nat option" where
  "parse_nat s =
     (case s of
        [] \<Rightarrow> None
      | c # cs \<Rightarrow> if py_isdigit c then parse_digits (digit_val c) cs else None)"

definition py_int :: "string \<Rightarrow> int option" where
  "py_int s =
     (if int (length (filter py_isdigit s)) > int_max_str_digits then None
      else (case py_strip s of
              [] \<Rightarrow> None
            | c # cs \<Rightarrow>
                if c = CHR ''-'' then map_option (\<lambda>n. - int n) (parse_nat cs)
                else if c = CHR ''+'' then map_option int (parse_nat cs)
                else map_option int (parse_nat (c # cs))))"

text \<open>
  \<^verbatim>\<open>str(n)\<close> for an integer, as an f-string prints it. The function is total:
  it also prints an integer of more than 4300 digits, for which CPython raises
  \<^verbatim>\<open>ValueError\<close>. The integers that the drivers print are read by \<^verbatim>\<open>int\<close> or
  computed from such ones, so only an index of the generated program that lies within a
  factor two of that limit is printed here and not there.
\<close>

definition digit_char :: "nat \<Rightarrow> char" where
  "digit_char d = ''0123456789'' ! (d mod 10)"

function show_digits :: "int \<Rightarrow> string" where
  "show_digits n =
     (if n < 10 then [digit_char (nat n)]
      else show_digits (n div 10) @ [digit_char (nat (n mod 10))])"
  by pat_completeness auto
termination
  by (relation "measure nat") auto

declare show_digits.simps [simp del]

definition show_int :: "int \<Rightarrow> string" where
  "show_int i = (if i < 0 then CHR ''-'' # show_digits (- i) else show_digits i)"

text \<open>\<^verbatim>\<open>f"{s:<w}"\<close>: left-aligned in a field of width \<open>w\<close>, never truncated.\<close>

definition ljust :: "nat \<Rightarrow> string \<Rightarrow> string" where
  "ljust w s = s @ replicate (w - length s) CHR '' ''"

text \<open>\<^verbatim>\<open>s.lower()\<close> on the code points below 256.\<close>

definition lower_char :: "char \<Rightarrow> char" where
  "lower_char c =
     (let n = (of_char c :: nat)
      in if (65 \<le> n \<and> n \<le> 90) \<or> (192 \<le> n \<and> n \<le> 222 \<and> n \<noteq> 215)
         then char_of (n + 32) else c)"

definition py_lower :: "string \<Rightarrow> string" where
  "py_lower s = map lower_char s"


section \<open>Errors\<close>

text \<open>
  The exceptions that occur in the drivers: \<^verbatim>\<open>int(...)\<close> on text that is not a
  number, an index past the end of a \<^verbatim>\<open>split\<close> result, a missing dictionary key,
  \<^verbatim>\<open>subprocess.TimeoutExpired\<close>, and any other exception that a call into
  \<^verbatim>\<open>subprocess\<close> or a file read raises (all of them are subclasses of
  \<^verbatim>\<open>Exception\<close>).
\<close>

datatype py_error = ValueError | IndexError | KeyError | TimeoutExpired | OtherException

definition int_at :: "string list \<Rightarrow> nat \<Rightarrow> py_error + int" where
  "int_at parts i =
     (if i < length parts
      then (case py_int (parts ! i) of None \<Rightarrow> Inl ValueError | Some n \<Rightarrow> Inr n)
      else Inl IndexError)"

section \<open>OutputClassifier: \<^verbatim>\<open>is_sat_output\<close> and \<^verbatim>\<open>is_unsat_output\<close>\<close>

text \<open>The two functions are the same text in both drivers.\<close>

definition is_sat_output :: "string \<Rightarrow> bool" where
  "is_sat_output stdout =
     (if py_in ''--> Solution'' stdout then True
      else if py_in ''[Solving time:'' stdout \<and> py_in ''[Formula size:'' stdout
           then (if \<not> py_in ''0 solutions'' stdout \<and> \<not> py_in ''No solutions'' stdout
                 then True else False)
      else False)"

text \<open>
  The regular expressions. \<^verbatim>\<open>\w\<close> is an alphanumeric character or the underscore;
  \<^verbatim>\<open>\b\<close> holds between a \<^verbatim>\<open>\w\<close> and a character that is none, or the end of the
  text. The pattern \<^verbatim>\<open>\b0 solutions\b\<close> begins and ends with a \<^verbatim>\<open>\w\<close>, so the
  character before the match and the one after it must be none.
\<close>

definition py_isword :: "char \<Rightarrow> bool" where
  "py_isword c =
     (let n = (of_char c :: nat)
      in (48 \<le> n \<and> n \<le> 57) \<or> (65 \<le> n \<and> n \<le> 90) \<or> (97 \<le> n \<and> n \<le> 122) \<or> n = 95
         \<or> n \<in> {170, 178, 179, 181, 185, 186, 188, 189, 190}
         \<or> (192 \<le> n \<and> n \<le> 214) \<or> (216 \<le> n \<and> n \<le> 246) \<or> (248 \<le> n \<and> n \<le> 255))"

fun search_word_bounded :: "string \<Rightarrow> bool \<Rightarrow> string \<Rightarrow> bool" where
  "search_word_bounded pat prev_word [] = False"
| "search_word_bounded pat prev_word (c # cs) =
     ((\<not> prev_word \<and> prefix pat (c # cs)
         \<and> (case drop (length pat) (c # cs) of [] \<Rightarrow> True | d # ds \<Rightarrow> \<not> py_isword d))
      \<or> search_word_bounded pat (py_isword c) cs)"

text \<open>
  \<^verbatim>\<open>\[Number of solutions:\s*0\]\<close>: the label, any run of whitespace, then \<^verbatim>\<open>0]\<close>.
  The run is followed by a character that is no whitespace, so it is the whole run.
\<close>

fun search_number_of_solutions_0 :: "string \<Rightarrow> bool" where
  "search_number_of_solutions_0 [] = False"
| "search_number_of_solutions_0 (c # cs) =
     ((prefix ''[Number of solutions:'' (c # cs)
         \<and> prefix ''0]'' (dropWhile py_isspace (drop (length ''[Number of solutions:'') (c # cs))))
      \<or> search_number_of_solutions_0 cs)"

definition is_unsat_output :: "string \<Rightarrow> bool" where
  "is_unsat_output stdout =
     (if py_in ''No solutions found'' stdout \<or> search_word_bounded ''0 solutions'' False stdout
      then True
      else if search_number_of_solutions_0 stdout then True
      else False)"

text \<open>
  The size patterns of the clique driver. \<^verbatim>\<open>label\s*(\d+)\<close> matches at the leftmost
  occurrence of the label that is followed, after whitespace, by a digit, and the group is
  the whole run of digits. \<^verbatim>\<open>Solution.*?(\d+)\<close> matches at the leftmost
  \<^verbatim>\<open>Solution\<close> with a digit later on its line (\<^verbatim>\<open>.\<close> stops at a newline), and the
  group is the first run of digits after it. Each search returns the group, the text
  that \<^verbatim>\<open>size_match.group(1)\<close> is; \<open>None\<close> is no match.
\<close>

definition leading_digits :: "string \<Rightarrow> string option" where
  "leading_digits s = (let ds = takeWhile py_isdigit s in if ds = [] then None else Some ds)"

fun search_label_digits :: "string \<Rightarrow> string \<Rightarrow> string option" where
  "search_label_digits label [] = None"
| "search_label_digits label (c # cs) =
     (if prefix label (c # cs)
      then (case leading_digits (dropWhile py_isspace (drop (length label) (c # cs))) of
              Some ds \<Rightarrow> Some ds
            | None \<Rightarrow> search_label_digits label cs)
      else search_label_digits label cs)"

fun search_solution_digits :: "string \<Rightarrow> string option" where
  "search_solution_digits [] = None"
| "search_solution_digits (c # cs) =
     (if prefix ''Solution'' (c # cs)
      then (case leading_digits
                   (dropWhile (\<lambda>x. \<not> py_isdigit x \<and> x \<noteq> CHR 0x0A)
                      (drop (length ''Solution'') (c # cs))) of
              Some ds \<Rightarrow> Some ds
            | None \<Rightarrow> search_solution_digits cs)
      else search_solution_digits cs)"

text \<open>
  \<^verbatim>\<open>int(size_match.group(1))\<close>: the value of a run of digits, or \<^verbatim>\<open>ValueError\<close>
  when the run is longer than the limit of \<^verbatim>\<open>int\<close>.
\<close>

definition digits_value :: "string \<Rightarrow> nat" where
  "digits_value ds = foldl (\<lambda>acc c. 10 * acc + digit_val c) 0 ds"

definition int_of_digits :: "string \<Rightarrow> py_error + nat" where
  "int_of_digits ds =
     (if int (length ds) > int_max_str_digits then Inl ValueError else Inr (digits_value ds))"

text \<open>
  The three searches of \<^verbatim>\<open>run_ursa\<close> in the clique driver, each tried when the one
  before found nothing, and the clique size read from the match; without a match the
  size stays 0.
\<close>

definition clique_size_match :: "string \<Rightarrow> string option" where
  "clique_size_match stdout =
     (case search_label_digits ''Clique size:'' stdout of
        Some ds \<Rightarrow> Some ds
      | None \<Rightarrow>
          (case search_label_digits ''Maximum clique:'' stdout of
             Some ds \<Rightarrow> Some ds
           | None \<Rightarrow> search_solution_digits stdout))"

definition clique_size_of :: "string \<Rightarrow> py_error + nat" where
  "clique_size_of stdout =
     (case clique_size_match stdout of
        None \<Rightarrow> Inr 0
      | Some ds \<Rightarrow> int_of_digits ds)"

section \<open>ProcessRunner\<close>

text \<open>
  A run function starts one child process and waits for it. What the child does is the
  input of the model: whether \<^verbatim>\<open>subprocess.Popen\<close> returns or raises, how the wait
  \<^verbatim>\<open>process.communicate(timeout=...)\<close> ends, whether \<^verbatim>\<open>process.kill()\<close> after a
  timeout returns or raises (it raises, for one, \<^verbatim>\<open>PermissionError\<close> when the signal
  may not be sent), and whether the second \<^verbatim>\<open>process.communicate()\<close>, which
  \<^verbatim>\<open>run_ursa\<close> issues after the kill, returns or raises. The readings of the clock
  enter as the measured time \<open>elapsed\<close>.
\<close>

datatype popen_result = Launched | LaunchError

datatype communicate_result =
    Exited string int
  | TimedOut
  | CommunicateError

datatype kill_result = Killed | KillError

datatype drain_result = Drained | DrainError

record child =
  popen :: popen_result
  communicate :: communicate_result
  kill :: kill_result
  drain :: drain_result

text \<open>
  \<^verbatim>\<open>try: body except Exception: return fallback\<close>. \<open>Inl\<close> is an exception that
  leaves the statement.
\<close>

definition except_Exception :: "py_error + 'a \<Rightarrow> 'a \<Rightarrow> py_error + 'a" where
  "except_Exception body fallback = (case body of Inl e \<Rightarrow> Inr fallback | Inr r \<Rightarrow> Inr r)"

subsection \<open>The clique driver\<close>

type_synonym clique_outcome = "string \<times> real \<times> nat"

text \<open>
  The branch of \<^verbatim>\<open>run_ursa\<close> for exit code 0. The clique size is read from the
  output first, and \<^verbatim>\<open>int\<close> may raise there, before \<^verbatim>\<open>is_sat_output\<close> is asked.
\<close>

definition clique_classify :: "string \<Rightarrow> real \<Rightarrow> py_error + clique_outcome" where
  "clique_classify stdout actual_elapsed =
     (case clique_size_of stdout of
        Inl e \<Rightarrow> Inl e
      | Inr clique_size \<Rightarrow>
          if is_sat_output stdout \<or> clique_size > 0
          then Inr (''FOUND'', actual_elapsed, clique_size)
          else if is_unsat_output stdout then Inr (''NOT_FOUND'', actual_elapsed, 0)
          else Inr (''UNKNOWN'', actual_elapsed, 0))"

text \<open>
  The body of the outer \<^verbatim>\<open>try\<close> of \<^verbatim>\<open>run_ursa\<close>. The handler of
  \<^verbatim>\<open>TimeoutExpired\<close> lies inside it, so an exception of the kill or of the second
  \<^verbatim>\<open>communicate()\<close> is one of the body.
\<close>

definition clique_run_ursa_body :: "int \<Rightarrow> child \<Rightarrow> real \<Rightarrow> py_error + clique_outcome" where
  "clique_run_ursa_body timeout p actual_elapsed =
     (case popen p of
        LaunchError \<Rightarrow> Inl OtherException
      | Launched \<Rightarrow>
          (case communicate p of
             TimedOut \<Rightarrow>
               (case kill p of
                  KillError \<Rightarrow> Inl OtherException
                | Killed \<Rightarrow>
                    (case drain p of
                       DrainError \<Rightarrow> Inl OtherException
                     | Drained \<Rightarrow> Inr (''TIMEOUT'', of_int timeout, 0)))
           | CommunicateError \<Rightarrow> Inl OtherException
           | Exited stdout returncode \<Rightarrow>
               if returncode = 0 then clique_classify stdout actual_elapsed
               else Inr (''ERROR'', actual_elapsed, 0)))"

definition clique_run_ursa :: "int \<Rightarrow> child \<Rightarrow> real \<Rightarrow> py_error + clique_outcome" where
  "clique_run_ursa timeout p actual_elapsed =
     except_Exception (clique_run_ursa_body timeout p actual_elapsed) (''ERROR'', 0, 0)"

text \<open>
  \<^verbatim>\<open>size=(\d+)\<close> has no whitespace between the label and the digits.
\<close>

fun search_size_eq :: "string \<Rightarrow> string option" where
  "search_size_eq [] = None"
| "search_size_eq (c # cs) =
     (if prefix ''size='' (c # cs)
      then (case leading_digits (drop (length ''size='') (c # cs)) of
              Some ds \<Rightarrow> Some ds
            | None \<Rightarrow> search_size_eq cs)
      else search_size_eq cs)"

definition cliquer_size_of :: "string \<Rightarrow> py_error + nat" where
  "cliquer_size_of stdout =
     (case search_size_eq stdout of
        None \<Rightarrow> Inr 0
      | Some ds \<Rightarrow> int_of_digits ds)"

text \<open>
  \<^verbatim>\<open>run_cliquer\<close> has one \<^verbatim>\<open>try\<close> with two handlers. The body raises
  \<^verbatim>\<open>TimeoutExpired\<close> when the wait times out. The handler of \<^verbatim>\<open>TimeoutExpired\<close>
  kills the child; it is not inside any \<^verbatim>\<open>try\<close>, and the handler of
  \<^verbatim>\<open>Exception\<close> beside it does not cover it, so an exception of the kill leaves
  \<^verbatim>\<open>run_cliquer\<close>.
\<close>

definition run_cliquer_body :: "child \<Rightarrow> real \<Rightarrow> py_error + clique_outcome" where
  "run_cliquer_body p elapsed_time =
     (case popen p of
        LaunchError \<Rightarrow> Inl OtherException
      | Launched \<Rightarrow>
          (case communicate p of
             TimedOut \<Rightarrow> Inl TimeoutExpired
           | CommunicateError \<Rightarrow> Inl OtherException
           | Exited stdout returncode \<Rightarrow>
               (case cliquer_size_of stdout of
                  Inl e \<Rightarrow> Inl e
                | Inr clique_size \<Rightarrow>
                    if returncode = 0 \<and> clique_size > 0
                    then Inr (''FOUND'', elapsed_time, clique_size)
                    else if returncode = 0 \<and> clique_size = 0
                    then Inr (''NOT_FOUND'', elapsed_time, 0)
                    else Inr (''ERROR'', elapsed_time, 0))))"

definition run_cliquer :: "int \<Rightarrow> child \<Rightarrow> real \<Rightarrow> py_error + clique_outcome" where
  "run_cliquer timeout p elapsed_time =
     (case run_cliquer_body p elapsed_time of
        Inl e \<Rightarrow>
          if e = TimeoutExpired
          then (case kill p of
                  KillError \<Rightarrow> Inl OtherException
                | Killed \<Rightarrow> Inr (''TIMEOUT'', of_int timeout, 0))
          else Inr (''ERROR'', 0, 0)
      | Inr r \<Rightarrow> Inr r)"

subsection \<open>The SAT driver\<close>

type_synonym sat_outcome = "string \<times> real"

definition sat_classify :: "string \<Rightarrow> real \<Rightarrow> sat_outcome" where
  "sat_classify stdout actual_elapsed =
     (if is_sat_output stdout then (''SAT'', actual_elapsed)
      else if is_unsat_output stdout then (''UNSAT'', actual_elapsed)
      else (''UNKNOWN'', actual_elapsed))"

definition sat_run_ursa_body :: "int \<Rightarrow> child \<Rightarrow> real \<Rightarrow> py_error + sat_outcome" where
  "sat_run_ursa_body timeout p actual_elapsed =
     (case popen p of
        LaunchError \<Rightarrow> Inl OtherException
      | Launched \<Rightarrow>
          (case communicate p of
             TimedOut \<Rightarrow>
               (case kill p of
                  KillError \<Rightarrow> Inl OtherException
                | Killed \<Rightarrow>
                    (case drain p of
                       DrainError \<Rightarrow> Inl OtherException
                     | Drained \<Rightarrow> Inr (''TIMEOUT'', of_int timeout)))
           | CommunicateError \<Rightarrow> Inl OtherException
           | Exited stdout returncode \<Rightarrow>
               if returncode = 0 then Inr (sat_classify stdout actual_elapsed)
               else Inr (''ERROR'', actual_elapsed)))"

definition sat_run_ursa :: "int \<Rightarrow> child \<Rightarrow> real \<Rightarrow> py_error + sat_outcome" where
  "sat_run_ursa timeout p actual_elapsed =
     except_Exception (sat_run_ursa_body timeout p actual_elapsed) (''ERROR'', 0)"

text \<open>
  In \<^verbatim>\<open>run_minisat\<close> the handler of \<^verbatim>\<open>TimeoutExpired\<close> is again inside the outer
  \<^verbatim>\<open>try\<close>; there is no second \<^verbatim>\<open>communicate()\<close>.
\<close>

definition run_minisat_body :: "int \<Rightarrow> child \<Rightarrow> real \<Rightarrow> py_error + sat_outcome" where
  "run_minisat_body timeout p elapsed_time =
     (case popen p of
        LaunchError \<Rightarrow> Inl OtherException
      | Launched \<Rightarrow>
          (case communicate p of
             TimedOut \<Rightarrow>
               (case kill p of
                  KillError \<Rightarrow> Inl OtherException
                | Killed \<Rightarrow> Inr (''TIMEOUT'', of_int timeout))
           | CommunicateError \<Rightarrow> Inl OtherException
           | Exited stdout returncode \<Rightarrow>
               if returncode = 10 then Inr (''SAT'', elapsed_time)
               else if returncode = 20 then Inr (''UNSAT'', elapsed_time)
               else Inr (''ERROR'', elapsed_time)))"

definition run_minisat :: "int \<Rightarrow> child \<Rightarrow> real \<Rightarrow> py_error + sat_outcome" where
  "run_minisat timeout p elapsed_time =
     except_Exception (run_minisat_body timeout p elapsed_time) (''ERROR'', 0)"


section \<open>InstanceParser\<close>

subsection \<open>\<^verbatim>\<open>parse_dimacs_graph\<close> (clique driver)\<close>

text \<open>
  The parser keeps three variables: the declared vertex count, the declared edge count,
  both zero until a header line sets them, and the edges read so far. One step is the body
  of the loop for one line; \<open>Inl\<close> is the exception that leaves the loop and the function.
\<close>

type_synonym graph_instance = "int \<times> int \<times> (int \<times> int) list"

definition graph_line :: "graph_instance \<Rightarrow> string \<Rightarrow> py_error + graph_instance" where
  "graph_line st raw =
     (let line = py_strip raw; (num_vertices, num_edges, edges) = st
      in if line = [] \<or> startswith line ''c'' then Inr st
         else if startswith line ''p edge'' \<or> startswith line ''p col''
         then (let parts = py_split line
               in case int_at parts 2 of
                    Inl e \<Rightarrow> Inl e
                  | Inr nv \<Rightarrow>
                      (case int_at parts 3 of
                         Inl e \<Rightarrow> Inl e
                       | Inr ne \<Rightarrow> Inr (nv, ne, edges)))
         else if startswith line ''e ''
         then (let parts = py_split line
               in if length parts \<ge> 3
                  then (case int_at parts 1 of
                          Inl e \<Rightarrow> Inl e
                        | Inr v1 \<Rightarrow>
                            (case int_at parts 2 of
                               Inl e \<Rightarrow> Inl e
                             | Inr v2 \<Rightarrow> Inr (num_vertices, num_edges, edges @ [(v1, v2)])))
                  else Inr st)
         else Inr st)"

fun graph_lines :: "graph_instance \<Rightarrow> string list \<Rightarrow> py_error + graph_instance" where
  "graph_lines st [] = Inr st"
| "graph_lines st (l # ls) =
     (case graph_line st l of Inl e \<Rightarrow> Inl e | Inr st' \<Rightarrow> graph_lines st' ls)"

definition parse_dimacs_graph :: "string \<Rightarrow> py_error + graph_instance" where
  "parse_dimacs_graph content =
     graph_lines (0, 0, []) (py_split_char CHR 0x0A (py_strip content))"

subsection \<open>\<^verbatim>\<open>parse_dimacs\<close> (SAT driver)\<close>

type_synonym cnf_instance = "int \<times> int \<times> int list list"

text \<open>\<^verbatim>\<open>[int(x) for x in line.split() if x != '0']\<close>.\<close>

fun ints_of :: "string list \<Rightarrow> py_error + int list" where
  "ints_of [] = Inr []"
| "ints_of (x # xs) =
     (case py_int x of
        None \<Rightarrow> Inl ValueError
      | Some n \<Rightarrow> (case ints_of xs of Inl e \<Rightarrow> Inl e | Inr ns \<Rightarrow> Inr (n # ns)))"

definition clause_literals :: "string \<Rightarrow> py_error + int list" where
  "clause_literals line = ints_of (filter (\<lambda>x. x \<noteq> ''0'') (py_split line))"

definition cnf_line :: "cnf_instance \<Rightarrow> string \<Rightarrow> py_error + cnf_instance" where
  "cnf_line st raw =
     (let line = py_strip raw; (num_vars, num_clauses, clauses) = st
      in if line = [] \<or> startswith line ''c'' \<or> startswith line ''%'' then Inr st
         else if startswith line ''p cnf''
         then (let parts = py_split line
               in case int_at parts 2 of
                    Inl e \<Rightarrow> Inl e
                  | Inr nv \<Rightarrow>
                      (case int_at parts 3 of
                         Inl e \<Rightarrow> Inl e
                       | Inr nc \<Rightarrow> Inr (nv, nc, clauses)))
         else if line \<noteq> [] \<and> \<not> startswith line ''p''
         then (case clause_literals line of
                 Inl e \<Rightarrow> Inl e
               | Inr literals \<Rightarrow>
                   if literals \<noteq> [] then Inr (num_vars, num_clauses, clauses @ [literals])
                   else Inr st)
         else Inr st)"

fun cnf_lines :: "cnf_instance \<Rightarrow> string list \<Rightarrow> py_error + cnf_instance" where
  "cnf_lines st [] = Inr st"
| "cnf_lines st (l # ls) =
     (case cnf_line st l of Inl e \<Rightarrow> Inl e | Inr st' \<Rightarrow> cnf_lines st' ls)"

definition parse_dimacs :: "string \<Rightarrow> py_error + cnf_instance" where
  "parse_dimacs dimacs_content =
     cnf_lines (0, 0, []) (py_split_char CHR 0x0A (py_strip dimacs_content))"

section \<open>CodeGenerator\<close>

subsection \<open>\<^verbatim>\<open>generate_urs_code\<close> (clique driver)\<close>

definition clique_preamble :: "int \<Rightarrow> string" where
  "clique_preamble num_vertices =
     ''nN = '' @ show_int num_vertices @ '';\<newline>'' @
     ''\<newline>'' @
     ''// Initialize adjacency matrix\<newline>'' @
     ''for(i=0; i<nN; i++) {\<newline>'' @
     ''    for(j=0; j<nN; j++) {\<newline>'' @
     ''        bEdge[i][j] = false;\<newline>'' @
     ''    }\<newline>'' @
     ''}\<newline>'' @
     ''\<newline>'' @
     ''// Add edges (convert from 1-indexed to 0-indexed)\<newline>''"

text \<open>The body of the loop over the edges: two statements appended to the code so far.\<close>

definition add_edge :: "string \<Rightarrow> int \<times> int \<Rightarrow> string" where
  "add_edge urs_code e =
     (let (v1, v2) = e; v1_idx = v1 - 1; v2_idx = v2 - 1
      in (urs_code @ ''bEdge['' @ show_int v1_idx @ '']['' @ show_int v2_idx @ ''] = true;\<newline>'')
           @ ''bEdge['' @ show_int v2_idx @ '']['' @ show_int v1_idx @ ''] = true;\<newline>'')"

definition clique_generate_urs_code :: "int \<Rightarrow> (int \<times> int) list \<Rightarrow> string \<Rightarrow> string" where
  "clique_generate_urs_code num_vertices edges template =
     foldl add_edge (clique_preamble num_vertices) edges @ (''\<newline>'' @ template @ ''\<newline>'')"

subsection \<open>\<^verbatim>\<open>generate_urs_code\<close> (SAT driver)\<close>

definition sat_preamble :: "int \<Rightarrow> int \<Rightarrow> string" where
  "sat_preamble num_vars num_clauses =
     ''nN = '' @ show_int num_vars @ '';\<newline>'' @
     ''nClauses = '' @ show_int num_clauses @ '';\<newline>'' @
     ''\<newline>'' @
     ''for(ni=0; ni<nClauses; ni++) {\<newline>'' @
     ''    for(nj=0; nj<2*nN; nj++) {\<newline>'' @
     ''        bC[ni][nj] = false;\<newline>'' @
     ''    }\<newline>'' @
     ''}\<newline>'' @
     ''\<newline>''"

definition add_literal :: "nat \<Rightarrow> string \<Rightarrow> int \<Rightarrow> string" where
  "add_literal clause_idx urs_code literal =
     (if literal > 0
      then (let var_index = literal - 1
            in urs_code @ ''bC['' @ show_int (int clause_idx) @ '']['' @ show_int (2 * var_index)
                 @ ''] = true;\<newline>'')
      else (let var_index = \<bar>literal\<bar> - 1
            in urs_code @ ''bC['' @ show_int (int clause_idx) @ '']['' @ show_int (2 * var_index + 1)
                 @ ''] = true;\<newline>''))"

definition add_clause :: "string \<Rightarrow> nat \<times> int list \<Rightarrow> string" where
  "add_clause urs_code ic = (let (clause_idx, clause) = ic in foldl (add_literal clause_idx) urs_code clause)"

definition sat_generate_urs_code :: "int \<Rightarrow> int \<Rightarrow> int list list \<Rightarrow> string \<Rightarrow> string" where
  "sat_generate_urs_code num_vars num_clauses clauses template =
     foldl add_clause (sat_preamble num_vars num_clauses) (enumerate 0 clauses)
       @ (''\<newline>'' @ template @ ''\<newline>'')"


section \<open>Statistics\<close>

text \<open>
  The statistics are a dictionary with the keys \<^verbatim>\<open>total\<close>, \<^verbatim>\<open>ursa\<close>,
  \<^verbatim>\<open>cliquer\<close> (or \<^verbatim>\<open>minisat\<close>) and \<^verbatim>\<open>reduction\<close>; these four keys never change,
  so it is a record. Each solver's entry is a dictionary of counters, modelled as an
  association list in insertion order. Reading a missing key raises \<^verbatim>\<open>KeyError\<close>;
  assigning to a missing key adds it.
\<close>

type_synonym counts = "(string \<times> int) list"

definition dict_get :: "counts \<Rightarrow> string \<Rightarrow> py_error + int" where
  "dict_get d k = (case map_of d k of None \<Rightarrow> Inl KeyError | Some v \<Rightarrow> Inr v)"

fun dict_set :: "counts \<Rightarrow> string \<Rightarrow> int \<Rightarrow> counts" where
  "dict_set [] k v = [(k, v)]"
| "dict_set ((k', v') # d) k v = (if k' = k then (k, v) # d else (k', v') # dict_set d k v)"

text \<open>\<^verbatim>\<open>d[k] += 1\<close>.\<close>

definition dict_incr :: "counts \<Rightarrow> string \<Rightarrow> py_error + counts" where
  "dict_incr d k = (case dict_get d k of Inl e \<Rightarrow> Inl e | Inr v \<Rightarrow> Inr (dict_set d k (v + 1)))"

text \<open>
  \<^verbatim>\<open>{k: existing[k] + new[k] for k in existing}\<close>: the keys of the first dictionary,
  each looked up in the second.
\<close>

fun dict_add :: "counts \<Rightarrow> counts \<Rightarrow> py_error + counts" where
  "dict_add [] new = Inr []"
| "dict_add ((k, v) # es) new =
     (case dict_get new k of
        Inl e \<Rightarrow> Inl e
      | Inr w \<Rightarrow> (case dict_add es new of Inl e \<Rightarrow> Inl e | Inr r \<Rightarrow> Inr ((k, v + w) # r)))"

text \<open>\<^verbatim>\<open>bool(self.reduction_template)\<close>: a template that is absent or empty counts as none.\<close>

definition truthy :: "string option \<Rightarrow> bool" where
  "truthy t = (case t of None \<Rightarrow> False | Some s \<Rightarrow> s \<noteq> [])"

subsection \<open>The clique driver\<close>

record clique_stats =
  cs_total :: int
  cs_ursa :: counts
  cs_cliquer :: counts
  cs_reduction :: counts

definition clique_initialize_empty_stats :: clique_stats where
  "clique_initialize_empty_stats =
     \<lparr>cs_total = 0,
      cs_ursa = [(''found'', 0), (''not_found'', 0), (''timeout'', 0), (''error'', 0)],
      cs_cliquer = [(''found'', 0), (''timeout'', 0), (''error'', 0)],
      cs_reduction = [(''found'', 0), (''not_found'', 0), (''timeout'', 0), (''error'', 0)]\<rparr>"

text \<open>
  The result of one instance. The three \<^verbatim>\<open>reduction_*\<close> keys are present only when a
  reduction template is configured.
\<close>

record clique_result =
  r_file :: string
  r_vertices :: int
  r_edges :: int
  r_ursa_status :: string
  r_ursa_time :: real
  r_ursa_clique :: nat
  r_cliquer_status :: string
  r_cliquer_time :: real
  r_cliquer_clique :: nat
  r_reduction :: "(string \<times> real \<times> nat) option"

text \<open>
  The chain \<^verbatim>\<open>if key == 'found' ... elif key == 'not_found' ... elif key == 'timeout'
  ... else ... 'error'\<close> that \<^verbatim>\<open>update_stats\<close> applies to the URSA status and to the
  reduction status, and the shorter chain for Cliquer.
\<close>

definition ursa_counter :: "string \<Rightarrow> string" where
  "ursa_counter status =
     (let status_key = py_lower status
      in if status_key = ''found'' then ''found''
         else if status_key = ''not_found'' then ''not_found''
         else if status_key = ''timeout'' then ''timeout''
         else ''error'')"

definition cliquer_counter :: "string \<Rightarrow> string" where
  "cliquer_counter status =
     (let status_key = py_lower status
      in if status_key = ''found'' then ''found''
         else if status_key = ''timeout'' then ''timeout''
         else ''error'')"

definition clique_update_stats :: "clique_stats \<Rightarrow> clique_result \<Rightarrow> bool \<Rightarrow> py_error + clique_stats" where
  "clique_update_stats stats result has_reduction =
     (let s0 = stats\<lparr>cs_total := cs_total stats + 1\<rparr>
      in case dict_incr (cs_ursa s0) (ursa_counter (r_ursa_status result)) of
           Inl e \<Rightarrow> Inl e
         | Inr u \<Rightarrow>
             (case dict_incr (cs_cliquer s0) (cliquer_counter (r_cliquer_status result)) of
                Inl e \<Rightarrow> Inl e
              | Inr c \<Rightarrow>
                  (let s1 = s0\<lparr>cs_ursa := u, cs_cliquer := c\<rparr>
                   in if has_reduction
                      then (case r_reduction result of
                              None \<Rightarrow> Inl KeyError
                            | Some red \<Rightarrow>
                                (case dict_incr (cs_reduction s1) (ursa_counter (fst red)) of
                                   Inl e \<Rightarrow> Inl e
                                 | Inr r \<Rightarrow> Inr (s1\<lparr>cs_reduction := r\<rparr>)))
                      else Inr s1)))"

text \<open>
  \<^verbatim>\<open>write_final_statistics\<close>: the text it writes, with the reading of the clock as
  \<open>now\<close>. A counter that is missing raises \<^verbatim>\<open>KeyError\<close>.
\<close>

definition stat_row :: "string \<Rightarrow> counts \<Rightarrow> string \<Rightarrow> py_error + string" where
  "stat_row label d k =
     (case dict_get d k of Inl e \<Rightarrow> Inl e | Inr v \<Rightarrow> Inr (label @ show_int v @ ''\<newline>''))"

fun stat_rows :: "counts \<Rightarrow> (string \<times> string) list \<Rightarrow> py_error + string" where
  "stat_rows d [] = Inr []"
| "stat_rows d ((label, k) # rest) =
     (case stat_row label d k of
        Inl e \<Rightarrow> Inl e
      | Inr l \<Rightarrow> (case stat_rows d rest of Inl e \<Rightarrow> Inl e | Inr ls \<Rightarrow> Inr (l @ ls)))"

definition clique_write_final_statistics :: "clique_stats \<Rightarrow> bool \<Rightarrow> string \<Rightarrow> py_error + string" where
  "clique_write_final_statistics stats has_reduction now =
     (case stat_rows (cs_ursa stats)
             [(''Cliques found:     '', ''found''), (''Not found:         '', ''not_found''),
              (''Timeout:           '', ''timeout''), (''Error:             '', ''error'')] of
        Inl e \<Rightarrow> Inl e
      | Inr u \<Rightarrow>
          (case stat_rows (cs_cliquer stats)
                  [(''Cliques found:     '', ''found''), (''Timeout:           '', ''timeout''),
                   (''Error:             '', ''error'')] of
             Inl e \<Rightarrow> Inl e
           | Inr c \<Rightarrow>
               (case (if has_reduction
                      then (case stat_rows (cs_reduction stats)
                                   [(''Cliques found:     '', ''found''),
                                    (''Not found:         '', ''not_found''),
                                    (''Timeout:           '', ''timeout''),
                                    (''Error:             '', ''error'')] of
                              Inl e \<Rightarrow> Inl e
                            | Inr r \<Rightarrow> Inr (''Reduction Results:\<newline>'' @ r @ ''\<newline>''))
                      else Inr []) of
                  Inl e \<Rightarrow> Inl e
                | Inr red \<Rightarrow>
                    Inr (''\<newline>FINAL STATISTICS:\<newline>'' @
                         ''=================\<newline>\<newline>'' @
                         ''URSA Results:\<newline>'' @ u @ ''\<newline>'' @
                         ''Cliquer Results:\<newline>'' @ c @ ''\<newline>'' @
                         red @
                         ''Total instances:   '' @ show_int (cs_total stats) @ ''\<newline>'' @
                         ''Completed: '' @ now @ ''\<newline>''))))"

subsection \<open>The SAT driver\<close>

record sat_stats =
  ss_total :: int
  ss_ursa :: counts
  ss_minisat :: counts
  ss_reduction :: counts

definition sat_initialize_empty_stats :: sat_stats where
  "sat_initialize_empty_stats =
     \<lparr>ss_total = 0,
      ss_ursa = [(''SAT'', 0), (''UNSAT'', 0), (''TIMEOUT'', 0), (''ERROR'', 0), (''UNKNOWN'', 0)],
      ss_minisat = [(''SAT'', 0), (''UNSAT'', 0), (''TIMEOUT'', 0), (''ERROR'', 0)],
      ss_reduction = [(''SAT'', 0), (''UNSAT'', 0), (''TIMEOUT'', 0), (''ERROR'', 0), (''UNKNOWN'', 0)]\<rparr>"

record sat_result =
  sr_file :: string
  sr_variables :: int
  sr_clauses :: int
  sr_ursa_status :: string
  sr_ursa_time :: real
  sr_minisat_status :: string
  sr_minisat_time :: real
  sr_reduction :: "(string \<times> real) option"

definition sat_update_stats :: "sat_stats \<Rightarrow> sat_result \<Rightarrow> bool \<Rightarrow> py_error + sat_stats" where
  "sat_update_stats stats result has_reduction =
     (let s0 = stats\<lparr>ss_total := ss_total stats + 1\<rparr>
      in case dict_incr (ss_ursa s0) (sr_ursa_status result) of
           Inl e \<Rightarrow> Inl e
         | Inr u \<Rightarrow>
             (case dict_incr (ss_minisat s0) (sr_minisat_status result) of
                Inl e \<Rightarrow> Inl e
              | Inr m \<Rightarrow>
                  (let s1 = s0\<lparr>ss_ursa := u, ss_minisat := m\<rparr>
                   in if has_reduction
                      then (case sr_reduction result of
                              None \<Rightarrow> Inl KeyError
                            | Some red \<Rightarrow>
                                (case dict_incr (ss_reduction s1) (fst red) of
                                   Inl e \<Rightarrow> Inl e
                                 | Inr r \<Rightarrow> Inr (s1\<lparr>ss_reduction := r\<rparr>)))
                      else Inr s1)))"

definition sat_write_final_statistics :: "sat_stats \<Rightarrow> bool \<Rightarrow> string \<Rightarrow> py_error + string" where
  "sat_write_final_statistics stats has_reduction now =
     (case stat_rows (ss_ursa stats)
             [(''SAT instances:     '', ''SAT''), (''UNSAT instances:   '', ''UNSAT''),
              (''UNKNOWN instances: '', ''UNKNOWN''), (''TIMEOUT instances: '', ''TIMEOUT''),
              (''ERROR instances:   '', ''ERROR'')] of
        Inl e \<Rightarrow> Inl e
      | Inr u \<Rightarrow>
          (case stat_rows (ss_minisat stats)
                  [(''SAT instances:     '', ''SAT''), (''UNSAT instances:   '', ''UNSAT''),
                   (''TIMEOUT instances: '', ''TIMEOUT''), (''ERROR instances:   '', ''ERROR'')] of
             Inl e \<Rightarrow> Inl e
           | Inr m \<Rightarrow>
               (case (if has_reduction
                      then (case stat_rows (ss_reduction stats)
                                   [(''SAT instances:     '', ''SAT''),
                                    (''UNSAT instances:   '', ''UNSAT''),
                                    (''UNKNOWN instances: '', ''UNKNOWN''),
                                    (''TIMEOUT instances: '', ''TIMEOUT''),
                                    (''ERROR instances:   '', ''ERROR'')] of
                              Inl e \<Rightarrow> Inl e
                            | Inr r \<Rightarrow> Inr (''Reduction Results:\<newline>'' @ r @ ''\<newline>''))
                      else Inr []) of
                  Inl e \<Rightarrow> Inl e
                | Inr red \<Rightarrow>
                    Inr (''\<newline>FINAL STATISTICS:\<newline>'' @
                         ''=================\<newline>\<newline>'' @
                         ''URSA Results:\<newline>'' @ u @ ''\<newline>'' @
                         ''MiniSat Results:\<newline>'' @ m @ ''\<newline>'' @
                         red @
                         ''Total instances:   '' @ show_int (ss_total stats) @ ''\<newline>'' @
                         ''Completed: '' @ now @ ''\<newline>''))))"

section \<open>RunLedger and ReportWriter\<close>

text \<open>
  The report file is its text; \<open>None\<close> is a file that does not exist.
  \<^verbatim>\<open>f.readlines()\<close> cuts the text after each newline, and \<^verbatim>\<open>f.writelines\<close> joins
  lines again. The text is the one that Python reads in text mode, that is after a
  carriage return has been translated to a newline; the drivers write none into a report.
\<close>

fun readlines :: "string \<Rightarrow> string list" where
  "readlines [] = []"
| "readlines (c # cs) =
     (if c = CHR 0x0A then [c] # readlines cs
      else (case readlines cs of
              [] \<Rightarrow> [[c]]
            | l # ls \<Rightarrow> (c # l) # ls))"

text \<open>The index of the first element that satisfies \<open>P\<close>; \<open>None\<close> is Python's \<open>-1\<close>.\<close>

fun first_index :: "('a \<Rightarrow> bool) \<Rightarrow> 'a list \<Rightarrow> nat option" where
  "first_index P [] = None"
| "first_index P (x # xs) = (if P x then Some 0 else map_option Suc (first_index P xs))"

text \<open>\<^verbatim>\<open>os.path.basename\<close>: what follows the last slash.\<close>

definition basename :: "string \<Rightarrow> string" where
  "basename path = rev (takeWhile (\<lambda>c. c \<noteq> CHR ''/'') (rev path))"

text \<open>\<^verbatim>\<open>sep.join(parts)\<close>.\<close>

fun py_join :: "string \<Rightarrow> string list \<Rightarrow> string" where
  "py_join sep [] = []"
| "py_join sep [x] = x"
| "py_join sep (x # y # ys) = x @ sep @ py_join sep (y # ys)"

text \<open>
  \<^verbatim>\<open>s.upper()\<close> on the code points below 256. The three characters whose upper case
  lies outside this range or is two characters long stay as they are; no category name
  contains them.
\<close>

definition upper_char :: "char \<Rightarrow> char" where
  "upper_char c =
     (let n = (of_char c :: nat)
      in if (97 \<le> n \<and> n \<le> 122) \<or> (224 \<le> n \<and> n \<le> 254 \<and> n \<noteq> 247)
         then char_of (n - 32) else c)"

definition py_upper :: "string \<Rightarrow> string" where
  "py_upper s = map upper_char s"

text \<open>
  \<^verbatim>\<open>extract_category\<close>: the first component of the path whose upper case is a known
  category, in upper case.
\<close>

definition extract_category :: "string list \<Rightarrow> string \<Rightarrow> string" where
  "extract_category categories path =
     (case filter (\<lambda>part. py_upper part \<in> set categories) (py_split_char CHR ''/'' path) of
        [] \<Rightarrow> ''UNKNOWN''
      | part # rest \<Rightarrow> py_upper part)"

definition clique_categories :: "string list" where
  "clique_categories =
     [''BROCK'', ''KELLER'', ''MANN'', ''P_HAT'', ''SAN'', ''SANR'', ''C-FAT'', ''HAMMING'', ''JOHNSON'']"

definition sat_categories :: "string list" where
  "sat_categories = [''AIM'', ''DUBOIS'', ''PHOLE'', ''GCP'', ''PARITY'', ''JNH'']"

text \<open>
  \<^verbatim>\<open>f"{x:<w.6f}"\<close>: six decimals, then padded. The time is a real number here, and
  the rounding is to the nearest millionth, an exact tie upwards, where Python rounds the
  binary value of the float; no property below depends on the digits of a time.
\<close>

definition fmt_millionths :: "int \<Rightarrow> string" where
  "fmt_millionths m =
     (let frac = show_digits (m mod 1000000)
      in show_digits (m div 1000000) @ ''.'' @ replicate (6 - length frac) CHR ''0'' @ frac)"

definition fmt6 :: "real \<Rightarrow> string" where
  "fmt6 x = (if x < 0 then ''-'' else []) @ fmt_millionths \<lfloor>\<bar>x\<bar> * 1000000 + 1 / 2\<rfloor>"

text \<open>
  \<^verbatim>\<open>int(line.split(':', 1)[1].strip())\<close> inside a \<^verbatim>\<open>try\<close> whose handler ignores the
  failure: \<open>None\<close> when there is no colon or no integer after it.
\<close>

definition number_after_colon :: "string \<Rightarrow> int option" where
  "number_after_colon line =
     (case after_first CHR '':'' line of None \<Rightarrow> None | Some rest \<Rightarrow> py_int (py_strip rest))"

definition extract_header_lines :: "string list \<Rightarrow> string list" where
  "extract_header_lines data_lines =
     (case first_index (py_in ''-----'') data_lines of
        None \<Rightarrow> []
      | Some i \<Rightarrow> take (i + 1) data_lines)"

definition filter_files :: "string list \<Rightarrow> string set \<Rightarrow> bool \<Rightarrow> string list" where
  "filter_files files processed_files continue_mode =
     filter (\<lambda>file. \<not> (continue_mode \<and> basename file \<in> processed_files)) files"

text \<open>
  \<^verbatim>\<open>prepare_output_file\<close>: the mode in which the report is opened next, and the report
  file as the function leaves it.
\<close>

definition prepare_output_file :: "string option \<Rightarrow> bool \<Rightarrow> string \<times> string option" where
  "prepare_output_file output_file continue_mode =
     (case output_file of
        None \<Rightarrow> (''w'', None)
      | Some text \<Rightarrow>
          if continue_mode
          then (let existing_lines = readlines text
                in case first_index (py_in ''FINAL STATISTICS:'') existing_lines of
                     None \<Rightarrow> (''a'', Some (concat existing_lines))
                   | Some i \<Rightarrow>
                       if i > 0 then (''a'', Some (concat (take i existing_lines)))
                       else (''a'', Some (concat existing_lines)))
          else (''w'', Some text))"

text \<open>The configuration of a benchmark object, and what it finds outside.\<close>

record config =
  cfg_timeout :: int
  cfg_solver_template :: string
  cfg_reduction_template :: "string option"
  cfg_save_urs :: bool
  cfg_continue_mode :: bool

subsection \<open>The clique driver\<close>

definition clique_extract_processed_filenames :: "string list \<Rightarrow> string set" where
  "clique_extract_processed_filenames data_lines =
     foldl (\<lambda>processed_files line.
        if py_in ''|'' line \<and> (py_in ''.clq'' line \<or> py_in ''.txt'' line)
        then (let parts = py_split_char CHR ''|'' line
              in if length parts \<ge> 2
                 then (let file_part = py_strip (parts ! 1)
                       in if py_in ''.clq'' file_part \<or> py_in ''.txt'' file_part
                          then insert file_part processed_files
                          else processed_files)
                 else processed_files)
        else processed_files) {} data_lines"

datatype clique_context = In_ursa | In_cliquer | In_reduction

text \<open>\<^verbatim>\<open>stats[context][key] = n\<close>.\<close>

definition clique_set_counter :: "clique_stats \<Rightarrow> clique_context \<Rightarrow> string \<Rightarrow> int \<Rightarrow> clique_stats" where
  "clique_set_counter stats context k n =
     (case context of
        In_ursa \<Rightarrow> stats\<lparr>cs_ursa := dict_set (cs_ursa stats) k n\<rparr>
      | In_cliquer \<Rightarrow> stats\<lparr>cs_cliquer := dict_set (cs_cliquer stats) k n\<rparr>
      | In_reduction \<Rightarrow> stats\<lparr>cs_reduction := dict_set (cs_reduction stats) k n\<rparr>)"

definition clique_parse_stat_line :: "clique_stats \<Rightarrow> clique_context \<Rightarrow> string \<Rightarrow> clique_stats" where
  "clique_parse_stat_line stats context line =
     (let low = py_lower line
      in if py_in ''cliques found:'' low
         then (case number_after_colon line of
                 None \<Rightarrow> stats | Some n \<Rightarrow> clique_set_counter stats context ''found'' n)
         else if py_in ''not found:'' low
         then (case number_after_colon line of
                 None \<Rightarrow> stats | Some n \<Rightarrow> clique_set_counter stats context ''not_found'' n)
         else if py_in ''timeout:'' low
         then (case number_after_colon line of
                 None \<Rightarrow> stats | Some n \<Rightarrow> clique_set_counter stats context ''timeout'' n)
         else if py_in ''error:'' low
         then (case number_after_colon line of
                 None \<Rightarrow> stats | Some n \<Rightarrow> clique_set_counter stats context ''error'' n)
         else stats)"

text \<open>One pass of the loop of \<^verbatim>\<open>_parse_statistics_section\<close>.\<close>

definition clique_statistics_line ::
    "clique_stats \<times> clique_context option \<Rightarrow> string \<Rightarrow> clique_stats \<times> clique_context option" where
  "clique_statistics_line st line =
     (let (stats, current_context) = st;
          (stats1, context1) =
            (if py_in ''URSA Results:'' line then (stats, Some In_ursa)
             else if py_in ''Cliquer Results:'' line then (stats, Some In_cliquer)
             else if py_in ''Reduction Results:'' line then (stats, Some In_reduction)
             else if py_in ''Total instances:'' line
             then ((case number_after_colon line of
                      None \<Rightarrow> stats | Some n \<Rightarrow> stats\<lparr>cs_total := n\<rparr>), None)
             else (stats, current_context))
      in case context1 of
           None \<Rightarrow> (stats1, context1)
         | Some context \<Rightarrow>
             if py_in ''found:'' (py_lower line) \<or> py_in ''timeout:'' (py_lower line)
                \<or> py_in ''error:'' (py_lower line)
             then (clique_parse_stat_line stats1 context line, context1)
             else (stats1, context1))"

definition clique_parse_statistics_section :: "string list \<Rightarrow> clique_stats" where
  "clique_parse_statistics_section stats_lines =
     fst (foldl clique_statistics_line (clique_initialize_empty_stats, None) stats_lines)"

definition clique_load_existing_results ::
    "string option \<Rightarrow> string set \<times> clique_stats \<times> string list" where
  "clique_load_existing_results output_file =
     (case output_file of
        None \<Rightarrow> ({}, clique_initialize_empty_stats, [])
      | Some text \<Rightarrow>
          (let lines = readlines text
           in case first_index (py_in ''FINAL STATISTICS:'') lines of
                None \<Rightarrow>
                  (clique_extract_processed_filenames lines, clique_initialize_empty_stats,
                   extract_header_lines lines)
              | Some i \<Rightarrow>
                  (clique_extract_processed_filenames (take i lines),
                   clique_parse_statistics_section (drop i lines),
                   extract_header_lines (take i lines))))"

definition clique_load_or_init_stats ::
    "config \<Rightarrow> string option \<Rightarrow> string set \<times> clique_stats \<times> string list" where
  "clique_load_or_init_stats cfg output_file =
     (if cfg_continue_mode cfg then clique_load_existing_results output_file
      else ({}, clique_initialize_empty_stats, []))"

text \<open>
  What the driver finds outside: the text of a graph file (\<open>None\<close> when reading it
  raises), and for each of the two executables what its child process does and how long
  the run is measured to take; URSA as a function of the program on its standard input,
  Cliquer as a function of the path of the graph file.
\<close>

record clique_world =
  cw_read_file :: "string \<Rightarrow> string option"
  cw_ursa :: "string \<Rightarrow> child \<times> real"
  cw_cliquer :: "string \<Rightarrow> child \<times> real"

definition clique_run_with_template ::
    "config \<Rightarrow> clique_world \<Rightarrow> int \<Rightarrow> (int \<times> int) list \<Rightarrow> string \<Rightarrow> py_error + clique_outcome" where
  "clique_run_with_template cfg w num_vertices edges template =
     (let urs_code = clique_generate_urs_code num_vertices edges template
      in clique_run_ursa (cfg_timeout cfg) (fst (cw_ursa w urs_code)) (snd (cw_ursa w urs_code)))"

definition clique_benchmark_file ::
    "config \<Rightarrow> clique_world \<Rightarrow> string set \<Rightarrow> string \<Rightarrow> py_error + clique_result option" where
  "clique_benchmark_file cfg w processed_files graph_file =
     (let file_name = basename graph_file
      in if cfg_continue_mode cfg \<and> file_name \<in> processed_files then Inr None
         else (case cw_read_file w graph_file of
                 None \<Rightarrow> Inr None
               | Some graph_content \<Rightarrow>
                   (case parse_dimacs_graph graph_content of
                      Inl e \<Rightarrow> Inr None
                    | Inr (num_vertices, num_edges, edges) \<Rightarrow>
                        (case clique_run_with_template cfg w num_vertices edges
                                (cfg_solver_template cfg) of
                           Inl e \<Rightarrow> Inl e
                         | Inr (ursa_status, ursa_time, ursa_clique) \<Rightarrow>
                             (case run_cliquer (cfg_timeout cfg) (fst (cw_cliquer w graph_file))
                                     (snd (cw_cliquer w graph_file)) of
                                Inl e \<Rightarrow> Inl e
                              | Inr (cliquer_status, cliquer_time, cliquer_clique) \<Rightarrow>
                                  (let result =
                                     \<lparr>r_file = file_name, r_vertices = num_vertices,
                                      r_edges = num_edges, r_ursa_status = ursa_status,
                                      r_ursa_time = ursa_time, r_ursa_clique = ursa_clique,
                                      r_cliquer_status = cliquer_status,
                                      r_cliquer_time = cliquer_time,
                                      r_cliquer_clique = cliquer_clique, r_reduction = None\<rparr>
                                   in if truthy (cfg_reduction_template cfg)
                                      then (case clique_run_with_template cfg w num_vertices edges
                                                   (case cfg_reduction_template cfg of None \<Rightarrow> [] | Some t \<Rightarrow> t) of
                                              Inl e \<Rightarrow> Inl e
                                            | Inr red \<Rightarrow> Inr (Some (result\<lparr>r_reduction := Some red\<rparr>)))
                                      else Inr (Some result)))))))"

definition clique_header_parts :: "config \<Rightarrow> string list" where
  "clique_header_parts cfg =
     (let red = truthy (cfg_reduction_template cfg)
      in [ljust 12 ''Category'', ljust 35 ''File'', ljust 9 ''Vertices'', ljust 8 ''Edges'',
          ljust 12 ''URSA'', ljust 12 ''Cliquer'']
         @ (if red then [ljust 12 ''Reduction''] else [])
         @ [ljust 10 ''URSA Time'', ljust 12 ''Cliquer Time'']
         @ (if red then [ljust 10 ''Red. Time''] else [])
         @ [ljust 12 ''URSA Clique'', ljust 12 ''Cliq. Clique'']
         @ (if red then [ljust 12 ''Red. Clique''] else [])
         @ (if cfg_save_urs cfg
            then [ljust 25 ''URS File''] @ (if red then [ljust 25 ''Reduction File''] else [])
            else []))"

definition clique_write_header :: "config \<Rightarrow> string \<Rightarrow> string" where
  "clique_write_header cfg now =
     ''URSA vs Cliquer Max Clique Benchmark Results\<newline>'' @
     ''=============================================\<newline>'' @
     ''Started: '' @ now @ ''\<newline>'' @
     (if cfg_save_urs cfg
      then ''URS files saved to: urs_files\<newline>'' @
           (if truthy (cfg_reduction_template cfg)
            then ''Reduction files saved to: reduction_files\<newline>'' else [])
      else []) @
     ''\<newline>'' @
     py_join '' | '' (clique_header_parts cfg) @ ''\<newline>'' @
     replicate (length (py_join '' | '' (clique_header_parts cfg))) CHR ''-'' @ ''\<newline>''"

text \<open>
  The row of one result. With a reduction template the row reads the three reduction
  keys of the result. The name of a saved program is never stored in the result, so its
  column is empty.
\<close>

definition clique_row :: "config \<Rightarrow> string \<Rightarrow> clique_result \<Rightarrow> py_error + string" where
  "clique_row cfg graph_file result =
     (let red = truthy (cfg_reduction_template cfg);
          category = extract_category clique_categories graph_file
      in case (if red
               then (case r_reduction result of
                       None \<Rightarrow> Inl KeyError
                     | Some (status, time, clique) \<Rightarrow>
                         Inr ([ljust 12 status], [ljust 10 (fmt6 time)],
                              [ljust 12 (show_int (int clique))]))
               else Inr ([], [], [])) of
           Inl e \<Rightarrow> Inl e
         | Inr (red_status, red_time, red_clique) \<Rightarrow>
             Inr (py_join '' | ''
                    ([ljust 12 category, ljust 35 (r_file result),
                      ljust 9 (show_int (r_vertices result)), ljust 8 (show_int (r_edges result)),
                      ljust 12 (r_ursa_status result), ljust 12 (r_cliquer_status result)]
                     @ red_status
                     @ [ljust 10 (fmt6 (r_ursa_time result)), ljust 12 (fmt6 (r_cliquer_time result))]
                     @ red_time
                     @ [ljust 12 (show_int (int (r_ursa_clique result))),
                        ljust 12 (show_int (int (r_cliquer_clique result)))]
                     @ red_clique
                     @ (if cfg_save_urs cfg
                        then [ljust 25 (basename [])] @ (if red then [ljust 25 (basename [])] else [])
                        else []))
                  @ ''\<newline>''))"

text \<open>
  The loop of \<^verbatim>\<open>benchmark_directory\<close> over the files to process. Its state is the
  text of the report, to which each row is appended and flushed, and the counters of this
  run.
\<close>

fun clique_process_files ::
    "config \<Rightarrow> clique_world \<Rightarrow> string set \<Rightarrow> string list \<Rightarrow> string \<times> clique_stats
       \<Rightarrow> py_error + string \<times> clique_stats" where
  "clique_process_files cfg w processed_files [] st = Inr st"
| "clique_process_files cfg w processed_files (graph_file # rest) st =
     (case clique_benchmark_file cfg w processed_files graph_file of
        Inl e \<Rightarrow> Inl e
      | Inr None \<Rightarrow> clique_process_files cfg w processed_files rest st
      | Inr (Some result) \<Rightarrow>
          (case clique_update_stats (snd st) result (truthy (cfg_reduction_template cfg)) of
             Inl e \<Rightarrow> Inl e
           | Inr stats \<Rightarrow>
               (case clique_row cfg graph_file result of
                  Inl e \<Rightarrow> Inl e
                | Inr line \<Rightarrow>
                    clique_process_files cfg w processed_files rest (fst st @ line, stats))))"

text \<open>
  The start of \<^verbatim>\<open>benchmark_directory\<close>: the ledger is loaded, the files are filtered,
  the report is prepared and opened, and a new report gets its header. The result is the
  set of processed files, the statistics found in the report, the files to process and
  the text of the opened report.
\<close>

definition clique_start ::
    "config \<Rightarrow> string option \<Rightarrow> string list \<Rightarrow> string
       \<Rightarrow> string set \<times> clique_stats \<times> string list \<times> string" where
  "clique_start cfg output_file graph_files started =
     (let (processed_files, existing_stats, existing_header) =
            clique_load_or_init_stats cfg output_file;
          files_to_process = filter_files graph_files processed_files (cfg_continue_mode cfg);
          (file_mode, prepared) = prepare_output_file output_file (cfg_continue_mode cfg)
      in (processed_files, existing_stats, files_to_process,
          (if file_mode = ''w'' then clique_write_header cfg started
           else (case prepared of None \<Rightarrow> [] | Some text \<Rightarrow> text))))"

definition clique_combined_stats :: "clique_stats \<Rightarrow> clique_stats \<Rightarrow> py_error + clique_stats" where
  "clique_combined_stats existing_stats stats =
     (case dict_add (cs_ursa existing_stats) (cs_ursa stats) of
        Inl e \<Rightarrow> Inl e
      | Inr u \<Rightarrow>
          (case dict_add (cs_cliquer existing_stats) (cs_cliquer stats) of
             Inl e \<Rightarrow> Inl e
           | Inr c \<Rightarrow>
               (case dict_add (cs_reduction existing_stats) (cs_reduction stats) of
                  Inl e \<Rightarrow> Inl e
                | Inr r \<Rightarrow>
                    Inr \<lparr>cs_total = cs_total existing_stats + cs_total stats,
                         cs_ursa = u, cs_cliquer = c, cs_reduction = r\<rparr>)))"

text \<open>
  \<^verbatim>\<open>benchmark_directory\<close>: the report file when the run has ended, and the combined
  statistics it wrote. \<open>started\<close> and \<open>completed\<close> are the two readings of the clock.
\<close>

definition clique_benchmark_directory ::
    "config \<Rightarrow> clique_world \<Rightarrow> string option \<Rightarrow> string list \<Rightarrow> string \<Rightarrow> string
       \<Rightarrow> py_error + string \<times> clique_stats" where
  "clique_benchmark_directory cfg w output_file graph_files started completed =
     (let (processed_files, existing_stats, files_to_process, opened) =
            clique_start cfg output_file graph_files started
      in case clique_process_files cfg w processed_files files_to_process
                (opened, clique_initialize_empty_stats) of
           Inl e \<Rightarrow> Inl e
         | Inr (report, stats) \<Rightarrow>
             (case clique_combined_stats existing_stats stats of
                Inl e \<Rightarrow> Inl e
              | Inr combined_stats \<Rightarrow>
                  (case clique_write_final_statistics combined_stats
                          (truthy (cfg_reduction_template cfg)) completed of
                     Inl e \<Rightarrow> Inl e
                   | Inr text \<Rightarrow> Inr (report @ text, combined_stats))))"

text \<open>
  A run that is interrupted: the report file as it stands when the process is stopped
  after the loop has handled the first \<open>k\<close> of the files to process. Every row was
  flushed when it was written, and the final statistics, which are written after the
  loop, are not there.
\<close>

definition clique_interrupted_report ::
    "config \<Rightarrow> clique_world \<Rightarrow> string option \<Rightarrow> string list \<Rightarrow> string \<Rightarrow> nat
       \<Rightarrow> py_error + string" where
  "clique_interrupted_report cfg w output_file graph_files started k =
     (let (processed_files, existing_stats, files_to_process, opened) =
            clique_start cfg output_file graph_files started
      in case clique_process_files cfg w processed_files (take k files_to_process)
                (opened, clique_initialize_empty_stats) of
           Inl e \<Rightarrow> Inl e
         | Inr (report, stats) \<Rightarrow> Inr report)"

subsection \<open>The SAT driver\<close>

definition sat_extract_processed_filenames :: "string list \<Rightarrow> string set" where
  "sat_extract_processed_filenames data_lines =
     foldl (\<lambda>processed_files line.
        if py_in ''|'' line \<and> py_in ''.cnf'' line
        then (let parts = py_split_char CHR ''|'' line
              in if length parts \<ge> 2
                 then (let file_part = py_strip (parts ! 1)
                       in if py_in ''.cnf'' file_part
                          then insert file_part processed_files
                          else processed_files)
                 else processed_files)
        else processed_files) {} data_lines"

datatype sat_context = At_ursa | At_minisat | At_reduction

definition sat_set_counter :: "sat_stats \<Rightarrow> sat_context \<Rightarrow> string \<Rightarrow> int \<Rightarrow> sat_stats" where
  "sat_set_counter stats context k n =
     (case context of
        At_ursa \<Rightarrow> stats\<lparr>ss_ursa := dict_set (ss_ursa stats) k n\<rparr>
      | At_minisat \<Rightarrow> stats\<lparr>ss_minisat := dict_set (ss_minisat stats) k n\<rparr>
      | At_reduction \<Rightarrow> stats\<lparr>ss_reduction := dict_set (ss_reduction stats) k n\<rparr>)"

text \<open>
  \<^verbatim>\<open>_parse_stat_line\<close> of the SAT driver, with its tests in the order of the source:
  \<^verbatim>\<open>"SAT instances:" in line\<close> is the first one.
\<close>

definition sat_parse_stat_line :: "sat_stats \<Rightarrow> sat_context \<Rightarrow> string \<Rightarrow> sat_stats" where
  "sat_parse_stat_line stats context line =
     (if py_in ''SAT instances:'' line
      then (case number_after_colon line of
              None \<Rightarrow> stats | Some n \<Rightarrow> sat_set_counter stats context ''SAT'' n)
      else if py_in ''UNSAT instances:'' line
      then (case number_after_colon line of
              None \<Rightarrow> stats | Some n \<Rightarrow> sat_set_counter stats context ''UNSAT'' n)
      else if py_in ''TIMEOUT instances:'' line
      then (case number_after_colon line of
              None \<Rightarrow> stats | Some n \<Rightarrow> sat_set_counter stats context ''TIMEOUT'' n)
      else if py_in ''ERROR instances:'' line
      then (case number_after_colon line of
              None \<Rightarrow> stats | Some n \<Rightarrow> sat_set_counter stats context ''ERROR'' n)
      else if py_in ''UNKNOWN instances:'' line \<and> context \<in> {At_ursa, At_reduction}
      then (case number_after_colon line of
              None \<Rightarrow> stats | Some n \<Rightarrow> sat_set_counter stats context ''UNKNOWN'' n)
      else stats)"

definition sat_statistics_line ::
    "sat_stats \<times> sat_context option \<Rightarrow> string \<Rightarrow> sat_stats \<times> sat_context option" where
  "sat_statistics_line st line =
     (let (stats, current_context) = st;
          (stats1, context1) =
            (if py_in ''URSA Results:'' line then (stats, Some At_ursa)
             else if py_in ''MiniSat Results:'' line then (stats, Some At_minisat)
             else if py_in ''Reduction Results:'' line then (stats, Some At_reduction)
             else if py_in ''Total instances:'' line
             then ((case number_after_colon line of
                      None \<Rightarrow> stats | Some n \<Rightarrow> stats\<lparr>ss_total := n\<rparr>), None)
             else (stats, current_context))
      in case context1 of
           None \<Rightarrow> (stats1, context1)
         | Some context \<Rightarrow>
             if py_in ''instances:'' line
             then (sat_parse_stat_line stats1 context line, context1)
             else (stats1, context1))"

definition sat_parse_statistics_section :: "string list \<Rightarrow> sat_stats" where
  "sat_parse_statistics_section stats_lines =
     fst (foldl sat_statistics_line (sat_initialize_empty_stats, None) stats_lines)"

definition sat_load_existing_results ::
    "string option \<Rightarrow> string set \<times> sat_stats \<times> string list" where
  "sat_load_existing_results output_file =
     (case output_file of
        None \<Rightarrow> ({}, sat_initialize_empty_stats, [])
      | Some text \<Rightarrow>
          (let lines = readlines text
           in case first_index (py_in ''FINAL STATISTICS:'') lines of
                None \<Rightarrow>
                  (sat_extract_processed_filenames lines, sat_initialize_empty_stats,
                   extract_header_lines lines)
              | Some i \<Rightarrow>
                  (sat_extract_processed_filenames (take i lines),
                   sat_parse_statistics_section (drop i lines),
                   extract_header_lines (take i lines))))"

definition sat_load_or_init_stats ::
    "config \<Rightarrow> string option \<Rightarrow> string set \<times> sat_stats \<times> string list" where
  "sat_load_or_init_stats cfg output_file =
     (if cfg_continue_mode cfg then sat_load_existing_results output_file
      else ({}, sat_initialize_empty_stats, []))"

text \<open>
  What the SAT driver finds outside: the text of a DIMACS file, what URSA does on a
  program, and what MiniSat does on the path of a DIMACS file.
\<close>

record sat_world =
  sw_read_file :: "string \<Rightarrow> string option"
  sw_ursa :: "string \<Rightarrow> child \<times> real"
  sw_minisat :: "string \<Rightarrow> child \<times> real"

definition sat_run_with_template ::
    "config \<Rightarrow> sat_world \<Rightarrow> int \<Rightarrow> int \<Rightarrow> int list list \<Rightarrow> string \<Rightarrow> py_error + sat_outcome" where
  "sat_run_with_template cfg w num_vars num_clauses clauses template =
     (let urs_code = sat_generate_urs_code num_vars num_clauses clauses template
      in sat_run_ursa (cfg_timeout cfg) (fst (sw_ursa w urs_code)) (snd (sw_ursa w urs_code)))"

definition sat_benchmark_file ::
    "config \<Rightarrow> sat_world \<Rightarrow> string set \<Rightarrow> string \<Rightarrow> py_error + sat_result option" where
  "sat_benchmark_file cfg w processed_files dimacs_file =
     (let file_name = basename dimacs_file
      in if cfg_continue_mode cfg \<and> file_name \<in> processed_files then Inr None
         else (case sw_read_file w dimacs_file of
                 None \<Rightarrow> Inr None
               | Some dimacs_content \<Rightarrow>
                   (case parse_dimacs dimacs_content of
                      Inl e \<Rightarrow> Inr None
                    | Inr (num_vars, num_clauses, clauses) \<Rightarrow>
                        (case sat_run_with_template cfg w num_vars num_clauses clauses
                                (cfg_solver_template cfg) of
                           Inl e \<Rightarrow> Inl e
                         | Inr (ursa_status, ursa_time) \<Rightarrow>
                             (case run_minisat (cfg_timeout cfg) (fst (sw_minisat w dimacs_file))
                                     (snd (sw_minisat w dimacs_file)) of
                                Inl e \<Rightarrow> Inl e
                              | Inr (minisat_status, minisat_time) \<Rightarrow>
                                  (let result =
                                     \<lparr>sr_file = file_name, sr_variables = num_vars,
                                      sr_clauses = num_clauses, sr_ursa_status = ursa_status,
                                      sr_ursa_time = ursa_time,
                                      sr_minisat_status = minisat_status,
                                      sr_minisat_time = minisat_time, sr_reduction = None\<rparr>
                                   in if truthy (cfg_reduction_template cfg)
                                      then (case sat_run_with_template cfg w num_vars num_clauses
                                                   clauses (case cfg_reduction_template cfg of None \<Rightarrow> [] | Some t \<Rightarrow> t) of
                                              Inl e \<Rightarrow> Inl e
                                            | Inr red \<Rightarrow> Inr (Some (result\<lparr>sr_reduction := Some red\<rparr>)))
                                      else Inr (Some result)))))))"

definition sat_header_parts :: "config \<Rightarrow> string list" where
  "sat_header_parts cfg =
     (let red = truthy (cfg_reduction_template cfg)
      in [ljust 12 ''Category'', ljust 35 ''File'', ljust 9 ''Variables'', ljust 8 ''Clauses'',
          ljust 8 ''URSA'', ljust 8 ''MiniSat'']
         @ (if red then [ljust 10 ''Reduction''] else [])
         @ [ljust 10 ''URSA Time'', ljust 12 ''MiniSat Time'']
         @ (if red then [ljust 14 ''Reduction Time''] else []))"

definition sat_write_header :: "config \<Rightarrow> string \<Rightarrow> string" where
  "sat_write_header cfg now =
     ''URSA Benchmark (solver_template) vs MiniSat'' @
     (if truthy (cfg_reduction_template cfg)
      then '' vs URSA Reduction (reduction_template)'' else []) @
     ''\<newline>'' @
     ''===============================================\<newline>'' @
     ''Started: '' @ now @ ''\<newline>'' @
     (if cfg_save_urs cfg
      then ''URS files will be saved to: urs_files\<newline>'' @
           (if truthy (cfg_reduction_template cfg)
            then ''Reduction files will be saved to: reduction_files\<newline>'' else [])
      else []) @
     ''\<newline>'' @
     py_join '' | '' (sat_header_parts cfg) @ ''\<newline>'' @
     replicate (length (py_join '' | '' (sat_header_parts cfg))) CHR ''-'' @ ''\<newline>''"

definition sat_row :: "config \<Rightarrow> string \<Rightarrow> sat_result \<Rightarrow> py_error + string" where
  "sat_row cfg dimacs_file result =
     (let red = truthy (cfg_reduction_template cfg);
          category = extract_category sat_categories dimacs_file
      in case (if red
               then (case sr_reduction result of
                       None \<Rightarrow> Inl KeyError
                     | Some (status, time) \<Rightarrow> Inr ([ljust 10 status], [ljust 14 (fmt6 time)]))
               else Inr ([], [])) of
           Inl e \<Rightarrow> Inl e
         | Inr (red_status, red_time) \<Rightarrow>
             Inr (py_join '' | ''
                    ([ljust 12 category, ljust 35 (sr_file result),
                      ljust 9 (show_int (sr_variables result)),
                      ljust 8 (show_int (sr_clauses result)),
                      ljust 8 (sr_ursa_status result), ljust 8 (sr_minisat_status result)]
                     @ red_status
                     @ [ljust 10 (fmt6 (sr_ursa_time result)), ljust 12 (fmt6 (sr_minisat_time result))]
                     @ red_time)
                  @ ''\<newline>''))"

fun sat_process_files ::
    "config \<Rightarrow> sat_world \<Rightarrow> string set \<Rightarrow> string list \<Rightarrow> string \<times> sat_stats
       \<Rightarrow> py_error + string \<times> sat_stats" where
  "sat_process_files cfg w processed_files [] st = Inr st"
| "sat_process_files cfg w processed_files (dimacs_file # rest) st =
     (case sat_benchmark_file cfg w processed_files dimacs_file of
        Inl e \<Rightarrow> Inl e
      | Inr None \<Rightarrow> sat_process_files cfg w processed_files rest st
      | Inr (Some result) \<Rightarrow>
          (case sat_update_stats (snd st) result (truthy (cfg_reduction_template cfg)) of
             Inl e \<Rightarrow> Inl e
           | Inr stats \<Rightarrow>
               (case sat_row cfg dimacs_file result of
                  Inl e \<Rightarrow> Inl e
                | Inr line \<Rightarrow>
                    sat_process_files cfg w processed_files rest (fst st @ line, stats))))"

definition sat_start ::
    "config \<Rightarrow> string option \<Rightarrow> string list \<Rightarrow> string
       \<Rightarrow> string set \<times> sat_stats \<times> string list \<times> string" where
  "sat_start cfg output_file dimacs_files started =
     (let (processed_files, existing_stats, existing_header) =
            sat_load_or_init_stats cfg output_file;
          files_to_process = filter_files dimacs_files processed_files (cfg_continue_mode cfg);
          (file_mode, prepared) = prepare_output_file output_file (cfg_continue_mode cfg)
      in (processed_files, existing_stats, files_to_process,
          (if file_mode = ''w'' then sat_write_header cfg started
           else (case prepared of None \<Rightarrow> [] | Some text \<Rightarrow> text))))"

definition sat_combined_stats :: "sat_stats \<Rightarrow> sat_stats \<Rightarrow> py_error + sat_stats" where
  "sat_combined_stats existing_stats stats =
     (case dict_add (ss_ursa existing_stats) (ss_ursa stats) of
        Inl e \<Rightarrow> Inl e
      | Inr u \<Rightarrow>
          (case dict_add (ss_minisat existing_stats) (ss_minisat stats) of
             Inl e \<Rightarrow> Inl e
           | Inr m \<Rightarrow>
               (case dict_add (ss_reduction existing_stats) (ss_reduction stats) of
                  Inl e \<Rightarrow> Inl e
                | Inr r \<Rightarrow>
                    Inr \<lparr>ss_total = ss_total existing_stats + ss_total stats,
                         ss_ursa = u, ss_minisat = m, ss_reduction = r\<rparr>)))"

definition sat_benchmark_directory ::
    "config \<Rightarrow> sat_world \<Rightarrow> string option \<Rightarrow> string list \<Rightarrow> string \<Rightarrow> string
       \<Rightarrow> py_error + string \<times> sat_stats" where
  "sat_benchmark_directory cfg w output_file dimacs_files started completed =
     (let (processed_files, existing_stats, files_to_process, opened) =
            sat_start cfg output_file dimacs_files started
      in case sat_process_files cfg w processed_files files_to_process
                (opened, sat_initialize_empty_stats) of
           Inl e \<Rightarrow> Inl e
         | Inr (report, stats) \<Rightarrow>
             (case sat_combined_stats existing_stats stats of
                Inl e \<Rightarrow> Inl e
              | Inr combined_stats \<Rightarrow>
                  (case sat_write_final_statistics combined_stats
                          (truthy (cfg_reduction_template cfg)) completed of
                     Inl e \<Rightarrow> Inl e
                   | Inr text \<Rightarrow> Inr (report @ text, combined_stats))))"

definition sat_interrupted_report ::
    "config \<Rightarrow> sat_world \<Rightarrow> string option \<Rightarrow> string list \<Rightarrow> string \<Rightarrow> nat
       \<Rightarrow> py_error + string" where
  "sat_interrupted_report cfg w output_file dimacs_files started k =
     (let (processed_files, existing_stats, files_to_process, opened) =
            sat_start cfg output_file dimacs_files started
      in case sat_process_files cfg w processed_files (take k files_to_process)
                (opened, sat_initialize_empty_stats) of
           Inl e \<Rightarrow> Inl e
         | Inr (report, stats) \<Rightarrow> Inr report)"

section \<open>Two concrete batches\<close>

text \<open>
  A configuration without a reduction template, and two small worlds, used to run the
  drivers on concrete inputs. In the clique world every graph file is the single edge
  \<open>(1, 2)\<close>, URSA prints a solution and Cliquer a clique of size 2. In the SAT world
  every DIMACS file is the unsatisfiable pair of clauses \<open>1\<close> and \<open>-1\<close>, URSA reports
  zero solutions and MiniSat exits with code 20.
\<close>

definition example_config :: "bool \<Rightarrow> config" where
  "example_config continue_mode =
     \<lparr>cfg_timeout = 120, cfg_solver_template = ''T'', cfg_reduction_template = None,
      cfg_save_urs = False, cfg_continue_mode = continue_mode\<rparr>"

definition example_clique_world :: clique_world where
  "example_clique_world =
     \<lparr>cw_read_file = (\<lambda>path. Some ''p edge 2 1\<newline>e 1 2\<newline>''),
      cw_ursa = (\<lambda>urs_code.
         (\<lparr>popen = Launched, communicate = Exited ''--> Solution'' 0, kill = Killed,
           drain = Drained\<rparr>, 1)),
      cw_cliquer = (\<lambda>path.
         (\<lparr>popen = Launched, communicate = Exited ''size=2'' 0, kill = Killed,
           drain = Drained\<rparr>, 2))\<rparr>"

definition example_sat_world :: sat_world where
  "example_sat_world =
     \<lparr>sw_read_file = (\<lambda>path. Some ''p cnf 1 2\<newline>1 0\<newline>-1 0\<newline>''),
      sw_ursa = (\<lambda>urs_code.
         (\<lparr>popen = Launched, communicate = Exited ''[Number of solutions: 0]'' 0,
           kill = Killed, drain = Drained\<rparr>, 1)),
      sw_minisat = (\<lambda>path.
         (\<lparr>popen = Launched, communicate = Exited [] 20, kill = Killed, drain = Drained\<rparr>, 2))\<rparr>"

section \<open>Properties\<close>

subsection \<open>Helper lemmas\<close>

lemma foldl_add_edge:
  "foldl add_edge acc es =
     acc @ concat (map (\<lambda>(u, v).
        ''bEdge['' @ show_int (u - 1) @ '']['' @ show_int (v - 1) @ ''] = true;\<newline>'' @
        ''bEdge['' @ show_int (v - 1) @ '']['' @ show_int (u - 1) @ ''] = true;\<newline>'') es)"
  by (induction es arbitrary: acc) (auto simp: add_edge_def Let_def)

lemma foldl_add_literal:
  "foldl (add_literal i) acc cl =
     acc @ concat (map (\<lambda>l.
        ''bC['' @ show_int (int i) @ '']['' @
          show_int (if l > 0 then 2 * (l - 1) else 2 * (\<bar>l\<bar> - 1) + 1) @ ''] = true;\<newline>'') cl)"
  by (induction cl arbitrary: acc) (auto simp: add_literal_def Let_def)

lemma foldl_add_clause:
  "foldl add_clause acc ics =
     acc @ concat (map (\<lambda>(i, cl). concat (map (\<lambda>l.
        ''bC['' @ show_int (int i) @ '']['' @
          show_int (if l > 0 then 2 * (l - 1) else 2 * (\<bar>l\<bar> - 1) + 1) @ ''] = true;\<newline>'') cl)) ics)"
  by (induction ics arbitrary: acc) (auto simp: add_clause_def foldl_add_literal)



subsection \<open>C3: classifier precedence\<close>

lemma py_in_append2: "py_in sub b \<Longrightarrow> py_in sub (a @ b)"
  by (induction a) auto

lemma search_label_digits_absent:
  "c \<in> set label \<Longrightarrow> c \<notin> set s \<Longrightarrow> search_label_digits label s = None"
proof (induction s)
  case Nil
  then show ?case by simp
next
  case (Cons x s)
  from Cons.prems have "\<not> prefix label (x # s)"
    using set_mono_prefix by fastforce
  with Cons show ?case by simp
qed

lemma takeWhile_replicate_digit:
  "takeWhile py_isdigit (replicate n CHR ''1'' @ CHR '' '' # rest) = replicate n CHR ''1''"
  by (induction n) (simp_all add: py_isdigit_def)

lemma long_size_match:
  assumes "0 < n"
  shows "clique_size_match (''--> Solution '' @ replicate n CHR ''1'' @ '' 0 solutions'')
           = Some (replicate n CHR ''1'')"
proof -
  let ?out = "''--> Solution '' @ replicate n CHR ''1'' @ '' 0 solutions''"
  have nocolon: "CHR '':'' \<notin> set ?out" by auto
  have a: "search_label_digits ''Clique size:'' ?out = None"
    by (rule search_label_digits_absent [OF _ nocolon]) simp
  have b: "search_label_digits ''Maximum clique:'' ?out = None"
    by (rule search_label_digits_absent [OF _ nocolon]) simp
  from assms obtain m where n: "n = Suc m" by (cases n) auto
  have d: "dropWhile (\<lambda>x. \<not> py_isdigit x \<and> x \<noteq> CHR 0x0A)
             (CHR '' '' # replicate n CHR ''1'' @ '' 0 solutions'')
           = replicate n CHR ''1'' @ '' 0 solutions''"
    by (simp add: n py_isdigit_def)
  have ne: "replicate n CHR ''1'' \<noteq> []" using assms by simp
  have c: "search_solution_digits ?out = Some (replicate n CHR ''1'')"
    using d ne by (simp add: leading_digits_def takeWhile_replicate_digit Let_def)
  show ?thesis by (simp only: clique_size_match_def a b c option.case)
qed

lemma long_output_markers:
  "py_in ''--> Solution'' (''--> Solution '' @ replicate n CHR ''1'' @ '' 0 solutions'')"
  "py_in ''0 solutions'' (''--> Solution '' @ replicate n CHR ''1'' @ '' 0 solutions'')"
proof -
  show "py_in ''--> Solution'' (''--> Solution '' @ replicate n CHR ''1'' @ '' 0 solutions'')"
    by simp
  have "py_in ''0 solutions'' ((''--> Solution '' @ replicate n CHR ''1'' @ '' '') @ ''0 solutions'')"
    by (rule py_in_append2) simp
  then show "py_in ''0 solutions'' (''--> Solution '' @ replicate n CHR ''1'' @ '' 0 solutions'')"
    by simp
qed

lemma long_size_is_error:
  assumes "clique_size_match out = Some ds" and "length ds > 4300"
  shows "clique_run_ursa T \<lparr>popen = Launched, communicate = Exited out 0, kill = k, drain = d\<rparr> e
           = Inr (''ERROR'', 0, 0)"
  using assms
  by (simp add: clique_run_ursa_def clique_run_ursa_body_def except_Exception_def
      clique_classify_def clique_size_of_def int_of_digits_def int_max_str_digits_def)

text \<open>
  Claim C3 says that every output with the positive marker and a zero-solutions phrase
  is classified as positive when the exit code is 0. The clique driver does not do so
  for every output: \<^verbatim>\<open>run_ursa\<close> reads the clique size with \<^verbatim>\<open>int\<close> before it
  asks \<^verbatim>\<open>is_sat_output\<close>, and on a solution line that carries a number of 4301 digits
  \<^verbatim>\<open>int\<close> raises \<^verbatim>\<open>ValueError\<close>, which the outer handler turns into \<^verbatim>\<open>ERROR\<close>.
\<close>

theorem long_clique_size_counterexample:
  "py_in ''--> Solution'' (''--> Solution '' @ replicate 4301 CHR ''1'' @ '' 0 solutions'')
   \<and> py_in ''0 solutions'' (''--> Solution '' @ replicate 4301 CHR ''1'' @ '' 0 solutions'')
   \<and> clique_run_ursa 5
        \<lparr>popen = Launched,
          communicate = Exited (''--> Solution '' @ replicate 4301 CHR ''1'' @ '' 0 solutions'') 0,
          kill = Killed, drain = Drained\<rparr> 1
       = Inr (''ERROR'', 0, 0)"
proof -
  have m: "clique_size_match (''--> Solution '' @ replicate 4301 CHR ''1'' @ '' 0 solutions'')
             = Some (replicate 4301 CHR ''1'')"
    by (rule long_size_match) simp
  have l: "length (replicate 4301 CHR ''1'') > 4300" by simp
  from long_size_is_error [OF m l] long_output_markers [of 4301] show ?thesis by blast
qed

text \<open>
  Claim C3, amended. For every solver output that contains both the positive marker
  \<^verbatim>\<open>--> Solution\<close> and a zero-solutions phrase, a run that ends with exit code 0 is
  classified as \<^verbatim>\<open>SAT\<close> by the SAT driver, and as \<^verbatim>\<open>FOUND\<close> by the clique driver
  provided the run of digits that the clique driver reads as the clique size (the group of
  the first of its three patterns that matches) has at most 4300 digits; the rule of
  \<^verbatim>\<open>is_sat_output\<close> is tried before \<^verbatim>\<open>is_unsat_output\<close>. When that run of digits is
  longer, the clique driver returns \<^verbatim>\<open>ERROR\<close> with elapsed time 0.
\<close>

theorem classifier_precedence:
  assumes "py_in ''--> Solution'' out"
    and "py_in ''0 solutions'' out \<or> is_unsat_output out"
  shows "sat_run_ursa T \<lparr>popen = Launched, communicate = Exited out 0, kill = k, drain = d\<rparr> e
           = Inr (''SAT'', e)
       \<and> ((\<forall>ds. clique_size_match out = Some ds \<longrightarrow> length ds \<le> 4300) \<longrightarrow>
            clique_run_ursa T \<lparr>popen = Launched, communicate = Exited out 0, kill = k, drain = d\<rparr> e
              = Inr (''FOUND'', e,
                     (case clique_size_match out of None \<Rightarrow> 0 | Some ds \<Rightarrow> digits_value ds)))
       \<and> ((\<exists>ds. clique_size_match out = Some ds \<and> length ds > 4300) \<longrightarrow>
            clique_run_ursa T \<lparr>popen = Launched, communicate = Exited out 0, kill = k, drain = d\<rparr> e
              = Inr (''ERROR'', 0, 0))"
  using assms(1)
  by (auto simp: clique_run_ursa_def clique_run_ursa_body_def sat_run_ursa_def sat_run_ursa_body_def
      except_Exception_def clique_classify_def sat_classify_def is_sat_output_def
      clique_size_of_def int_of_digits_def int_max_str_digits_def
      split: option.splits)

theorem classifier_precedence_witness:
  "py_in ''--> Solution'' ''--> Solution 0 solutions''
   \<and> is_unsat_output ''--> Solution 0 solutions''
   \<and> clique_size_match ''--> Solution 0 solutions'' = Some ''0''
   \<and> sat_run_ursa 5 \<lparr>popen = Launched, communicate = Exited ''--> Solution 0 solutions'' 0,
        kill = Killed, drain = Drained\<rparr> 1
       = Inr (''SAT'', 1)
   \<and> clique_run_ursa 5 \<lparr>popen = Launched, communicate = Exited ''--> Solution 0 solutions'' 0,
        kill = Killed, drain = Drained\<rparr> 1
       = Inr (''FOUND'', 1, 0)
   \<and> clique_size_match (''--> Solution '' @ replicate 4301 CHR ''1'' @ '' 0 solutions'')
       = Some (replicate 4301 CHR ''1'')
   \<and> clique_run_ursa 5
        \<lparr>popen = Launched,
          communicate = Exited (''--> Solution '' @ replicate 4301 CHR ''1'' @ '' 0 solutions'') 0,
          kill = Killed, drain = Drained\<rparr> 1
       = Inr (''ERROR'', 0, 0)"
proof -
  have h1: "py_in ''--> Solution'' ''--> Solution 0 solutions''"
    by simp
  have h2: "is_unsat_output ''--> Solution 0 solutions''"
    by (simp add: is_unsat_output_def py_isword_def)
  from h2 have h3: "py_in ''0 solutions'' ''--> Solution 0 solutions''
      \<or> is_unsat_output ''--> Solution 0 solutions''"
    by blast
  have m1: "clique_size_match ''--> Solution 0 solutions'' = Some ''0''"
    by code_simp
  have v1: "digits_value ''0'' = 0" by code_simp
  have short: "\<forall>ds. clique_size_match ''--> Solution 0 solutions'' = Some ds \<longrightarrow> length ds \<le> 4300"
    by (simp add: m1)
  have g1: "py_in ''--> Solution'' (''--> Solution '' @ replicate 4301 CHR ''1'' @ '' 0 solutions'')"
    by (rule long_output_markers)
  have g2: "py_in ''0 solutions'' (''--> Solution '' @ replicate 4301 CHR ''1'' @ '' 0 solutions'')
      \<or> is_unsat_output (''--> Solution '' @ replicate 4301 CHR ''1'' @ '' 0 solutions'')"
    using long_output_markers(2) [of 4301] by blast
  have m2: "clique_size_match (''--> Solution '' @ replicate 4301 CHR ''1'' @ '' 0 solutions'')
             = Some (replicate 4301 CHR ''1'')"
    by (rule long_size_match) simp
  have long: "\<exists>ds. clique_size_match (''--> Solution '' @ replicate 4301 CHR ''1'' @ '' 0 solutions'')
                  = Some ds \<and> length ds > 4300"
    unfolding m2 by simp
  from classifier_precedence [OF h1 h3, of 5 Killed Drained 1] short
  have a: "sat_run_ursa 5 \<lparr>popen = Launched, communicate = Exited ''--> Solution 0 solutions'' 0,
        kill = Killed, drain = Drained\<rparr> 1 = Inr (''SAT'', 1)"
    and b: "clique_run_ursa 5 \<lparr>popen = Launched, communicate = Exited ''--> Solution 0 solutions'' 0,
        kill = Killed, drain = Drained\<rparr> 1 = Inr (''FOUND'', 1, 0)"
    unfolding m1 by (simp_all add: v1)
  from classifier_precedence [OF g1 g2, of 5 Killed Drained 1] long
  have c: "clique_run_ursa 5
        \<lparr>popen = Launched,
          communicate = Exited (''--> Solution '' @ replicate 4301 CHR ''1'' @ '' 0 solutions'') 0,
          kill = Killed, drain = Drained\<rparr> 1
       = Inr (''ERROR'', 0, 0)"
    by blast
  from h1 h2 m1 a b m2 c show ?thesis by blast
qed

subsection \<open>C5: graph encoding\<close>

text \<open>
  Claim C5. The program generated for a graph is the preamble, whose loop sets
  \<^verbatim>\<open>bEdge[i][j]\<close> to false for every pair of indices below \<^verbatim>\<open>nN\<close>, then for each
  parsed edge \<open>(u, v)\<close>, in order, exactly the two statements
  \<^verbatim>\<open>bEdge[u-1][v-1] = true;\<close> and \<^verbatim>\<open>bEdge[v-1][u-1] = true;\<close>, and nothing else
  before the template. The witness is the graph with three vertices and the edges
  \<open>(1,2)\<close>, \<open>(2,3)\<close>: four assignments, for \<open>(0,1)\<close>, \<open>(1,0)\<close>, \<open>(1,2)\<close>, \<open>(2,1)\<close>.
\<close>

theorem graph_encoding_edge_symmetry:
  "clique_generate_urs_code n es t =
     (''nN = '' @ show_int n @ '';\<newline>'' @
      ''\<newline>'' @
      ''// Initialize adjacency matrix\<newline>'' @
      ''for(i=0; i<nN; i++) {\<newline>'' @
      ''    for(j=0; j<nN; j++) {\<newline>'' @
      ''        bEdge[i][j] = false;\<newline>'' @
      ''    }\<newline>'' @
      ''}\<newline>'' @
      ''\<newline>'' @
      ''// Add edges (convert from 1-indexed to 0-indexed)\<newline>'')
     @ concat (map (\<lambda>(u, v).
        ''bEdge['' @ show_int (u - 1) @ '']['' @ show_int (v - 1) @ ''] = true;\<newline>'' @
        ''bEdge['' @ show_int (v - 1) @ '']['' @ show_int (u - 1) @ ''] = true;\<newline>'') es)
     @ ''\<newline>'' @ t @ ''\<newline>''"
  by (simp add: clique_generate_urs_code_def foldl_add_edge clique_preamble_def)

theorem graph_encoding_edge_symmetry_witness:
  "parse_dimacs_graph ''p edge 3 2\<newline>e 1 2\<newline>e 2 3'' = Inr (3, 2, [(1, 2), (2, 3)])
   \<and> clique_generate_urs_code 3 [(1, 2), (2, 3)] ''T'' =
      ''nN = 3;\<newline>\<newline>// Initialize adjacency matrix\<newline>for(i=0; i<nN; i++) {\<newline>    for(j=0; j<nN; j++) {\<newline>        bEdge[i][j] = false;\<newline>    }\<newline>}\<newline>\<newline>// Add edges (convert from 1-indexed to 0-indexed)\<newline>bEdge[0][1] = true;\<newline>bEdge[1][0] = true;\<newline>bEdge[1][2] = true;\<newline>bEdge[2][1] = true;\<newline>\<newline>T\<newline>''"
proof -
  have p: "parse_dimacs_graph ''p edge 3 2\<newline>e 1 2\<newline>e 2 3'' = Inr (3, 2, [(1, 2), (2, 3)])"
    by code_simp
  show ?thesis
    using graph_encoding_edge_symmetry [of 3 "[(1, 2), (2, 3)]" "''T''"] p
    by (simp add: show_int_def show_digits.simps digit_char_def)
qed

subsection \<open>C6: CNF encoding\<close>

text \<open>
  Claim C6. The program generated for a CNF instance is the preamble, whose loop sets
  \<^verbatim>\<open>bC[c][s]\<close> to false for every clause index and every slot below \<^verbatim>\<open>2*nN\<close>, then
  one statement for each literal occurrence, in input order: slot \<open>2 * (v - 1)\<close> of the
  clause's row for the positive literal \<open>v\<close>, slot \<open>2 * (v - 1) + 1\<close> for the negative
  literal \<open>- v\<close>. The witness is \<^verbatim>\<open>p cnf 2 1\<close> with the clause \<^verbatim>\<open>1 -2 0\<close>: slots
  \<open>[0][0]\<close> and \<open>[0][3]\<close>.
\<close>

theorem cnf_encoding_polarity_slots:
  "sat_generate_urs_code nv nc cls t =
     (''nN = '' @ show_int nv @ '';\<newline>'' @
      ''nClauses = '' @ show_int nc @ '';\<newline>'' @
      ''\<newline>'' @
      ''for(ni=0; ni<nClauses; ni++) {\<newline>'' @
      ''    for(nj=0; nj<2*nN; nj++) {\<newline>'' @
      ''        bC[ni][nj] = false;\<newline>'' @
      ''    }\<newline>'' @
      ''}\<newline>'' @
      ''\<newline>'')
     @ concat (map (\<lambda>(i, cl). concat (map (\<lambda>l.
        ''bC['' @ show_int (int i) @ '']['' @
          show_int (if l > 0 then 2 * (l - 1) else 2 * (\<bar>l\<bar> - 1) + 1) @ ''] = true;\<newline>'') cl))
        (enumerate 0 cls))
     @ ''\<newline>'' @ t @ ''\<newline>''"
  by (simp add: sat_generate_urs_code_def foldl_add_clause sat_preamble_def)

theorem cnf_encoding_polarity_slots_witness:
  "parse_dimacs ''p cnf 2 1\<newline>1 -2 0'' = Inr (2, 1, [[1, - 2]])
   \<and> sat_generate_urs_code 2 1 [[1, - 2]] ''T'' =
      ''nN = 2;\<newline>nClauses = 1;\<newline>\<newline>for(ni=0; ni<nClauses; ni++) {\<newline>    for(nj=0; nj<2*nN; nj++) {\<newline>        bC[ni][nj] = false;\<newline>    }\<newline>}\<newline>\<newline>bC[0][0] = true;\<newline>bC[0][3] = true;\<newline>\<newline>T\<newline>''"
proof -
  have p: "parse_dimacs ''p cnf 2 1\<newline>1 -2 0'' = Inr (2, 1, [[1, - 2]])"
    by code_simp
  show ?thesis
    using cnf_encoding_polarity_slots [of 2 1 "[[1, - 2]]" "''T''"] p
    by (simp add: enumerate_eq_zip show_int_def show_digits.simps digit_char_def)
qed

subsection \<open>C7: the time reported on a timeout\<close>

text \<open>
  Claim C7 says that a run function returns \<^verbatim>\<open>TIMEOUT\<close> with the configured timeout
  whenever the solver exceeds the timeout. It does not when the clean-up of the child
  raises: in \<^verbatim>\<open>run_ursa\<close> and \<^verbatim>\<open>run_minisat\<close> the handler of \<^verbatim>\<open>TimeoutExpired\<close>
  lies inside the outer \<^verbatim>\<open>try\<close>, so an exception of \<^verbatim>\<open>process.kill()\<close> or of the
  second \<^verbatim>\<open>communicate()\<close> gives \<^verbatim>\<open>ERROR\<close> with elapsed time 0.
\<close>

theorem timeout_cleanup_failure_counterexample:
  "clique_run_ursa 5 \<lparr>popen = Launched, communicate = TimedOut, kill = Killed, drain = DrainError\<rparr>
       (5003 / 1000) = Inr (''ERROR'', 0, 0)
   \<and> sat_run_ursa 5 \<lparr>popen = Launched, communicate = TimedOut, kill = Killed, drain = DrainError\<rparr>
       (5003 / 1000) = Inr (''ERROR'', 0)
   \<and> run_minisat 5 \<lparr>popen = Launched, communicate = TimedOut, kill = KillError, drain = Drained\<rparr>
       (5003 / 1000) = Inr (''ERROR'', 0)"
  by (simp add: clique_run_ursa_def clique_run_ursa_body_def sat_run_ursa_def sat_run_ursa_body_def
      run_minisat_def run_minisat_body_def except_Exception_def)

text \<open>
  Claim C7, amended. When the wait for the solver ends by \<^verbatim>\<open>TimeoutExpired\<close> and the
  clean-up of the child succeeds (\<^verbatim>\<open>process.kill()\<close> returns and, in \<^verbatim>\<open>run_ursa\<close>,
  the \<^verbatim>\<open>communicate()\<close> after it returns), each of the four run functions returns the
  status \<^verbatim>\<open>TIMEOUT\<close> with the configured timeout as the elapsed time, whatever time
  \<open>e\<close> was measured. When the clean-up raises, \<^verbatim>\<open>run_ursa\<close> of both drivers and
  \<^verbatim>\<open>run_minisat\<close> return \<^verbatim>\<open>ERROR\<close> with elapsed time 0.
\<close>

theorem timeout_reports_configured_timeout:
  assumes "popen p = Launched" and "communicate p = TimedOut"
  shows "(kill p = Killed \<and> drain p = Drained \<longrightarrow>
            clique_run_ursa T p e = Inr (''TIMEOUT'', of_int T, 0)
          \<and> sat_run_ursa T p e = Inr (''TIMEOUT'', of_int T))
       \<and> (kill p = Killed \<longrightarrow>
            run_cliquer T p e = Inr (''TIMEOUT'', of_int T, 0)
          \<and> run_minisat T p e = Inr (''TIMEOUT'', of_int T))
       \<and> (kill p = KillError \<or> drain p = DrainError \<longrightarrow>
            clique_run_ursa T p e = Inr (''ERROR'', 0, 0)
          \<and> sat_run_ursa T p e = Inr (''ERROR'', 0))
       \<and> (kill p = KillError \<longrightarrow> run_minisat T p e = Inr (''ERROR'', 0))"
  using assms
  by (auto simp: clique_run_ursa_def clique_run_ursa_body_def run_cliquer_def run_cliquer_body_def
      sat_run_ursa_def sat_run_ursa_body_def run_minisat_def run_minisat_body_def
      except_Exception_def split: kill_result.splits drain_result.splits)

theorem timeout_reports_configured_timeout_witness:
  "clique_run_ursa 5 \<lparr>popen = Launched, communicate = TimedOut, kill = Killed, drain = Drained\<rparr>
       (5003 / 1000) = Inr (''TIMEOUT'', 5, 0)
   \<and> run_cliquer 5 \<lparr>popen = Launched, communicate = TimedOut, kill = Killed, drain = Drained\<rparr>
       (5003 / 1000) = Inr (''TIMEOUT'', 5, 0)
   \<and> sat_run_ursa 5 \<lparr>popen = Launched, communicate = TimedOut, kill = Killed, drain = Drained\<rparr>
       (5003 / 1000) = Inr (''TIMEOUT'', 5)
   \<and> run_minisat 5 \<lparr>popen = Launched, communicate = TimedOut, kill = Killed, drain = Drained\<rparr>
       (5003 / 1000) = Inr (''TIMEOUT'', 5)
   \<and> clique_run_ursa 5 \<lparr>popen = Launched, communicate = TimedOut, kill = KillError, drain = Drained\<rparr>
       (5003 / 1000) = Inr (''ERROR'', 0, 0)
   \<and> sat_run_ursa 5 \<lparr>popen = Launched, communicate = TimedOut, kill = KillError, drain = Drained\<rparr>
       (5003 / 1000) = Inr (''ERROR'', 0)
   \<and> run_minisat 5 \<lparr>popen = Launched, communicate = TimedOut, kill = KillError, drain = Drained\<rparr>
       (5003 / 1000) = Inr (''ERROR'', 0)"
  using timeout_reports_configured_timeout
      [of "\<lparr>popen = Launched, communicate = TimedOut, kill = Killed, drain = Drained\<rparr>" 5 "5003 / 1000"]
    timeout_reports_configured_timeout
      [of "\<lparr>popen = Launched, communicate = TimedOut, kill = KillError, drain = Drained\<rparr>" 5 "5003 / 1000"]
  by simp

subsection \<open>C8: failures of the subprocess calls\<close>

text \<open>
  A failed launch is reported by every run function as \<^verbatim>\<open>ERROR\<close> with elapsed time 0,
  and \<^verbatim>\<open>run_cliquer\<close> raises in exactly one case: the wait times out and the kill
  raises.
\<close>

lemma launch_failure_reported:
  "popen p = LaunchError \<Longrightarrow>
     clique_run_ursa T p e = Inr (''ERROR'', 0, 0)
   \<and> run_cliquer T p e = Inr (''ERROR'', 0, 0)
   \<and> sat_run_ursa T p e = Inr (''ERROR'', 0)
   \<and> run_minisat T p e = Inr (''ERROR'', 0)"
  by (simp add: clique_run_ursa_def clique_run_ursa_body_def run_cliquer_def run_cliquer_body_def
      sat_run_ursa_def sat_run_ursa_body_def run_minisat_def run_minisat_body_def
      except_Exception_def)

lemma run_cliquer_raises_iff:
  "isl (run_cliquer T p e)
     \<longleftrightarrow> popen p = Launched \<and> communicate p = TimedOut \<and> kill p = KillError"
  by (auto simp: run_cliquer_def run_cliquer_body_def cliquer_size_of_def int_of_digits_def
      split: popen_result.splits communicate_result.splits kill_result.splits sum.splits
        option.splits if_splits)

text \<open>
  Claim C8. No failure of a subprocess call leaves a run function as an exception. This
  fails in \<^verbatim>\<open>run_cliquer\<close>: when Cliquer exceeds the timeout and \<^verbatim>\<open>process.kill()\<close>
  raises, the exception leaves \<^verbatim>\<open>run_cliquer\<close> and \<^verbatim>\<open>benchmark_file\<close>, and the batch
  ends without its final statistics. The three other run functions, given the same child,
  return \<^verbatim>\<open>ERROR\<close> with elapsed time 0.
\<close>

theorem cliquer_kill_failure_escapes:
  "run_cliquer 120 \<lparr>popen = Launched, communicate = TimedOut, kill = KillError, drain = Drained\<rparr> 120
       = Inl OtherException
   \<and> clique_run_ursa 120 \<lparr>popen = Launched, communicate = TimedOut, kill = KillError, drain = Drained\<rparr> 120
       = Inr (''ERROR'', 0, 0)
   \<and> sat_run_ursa 120 \<lparr>popen = Launched, communicate = TimedOut, kill = KillError, drain = Drained\<rparr> 120
       = Inr (''ERROR'', 0)
   \<and> run_minisat 120 \<lparr>popen = Launched, communicate = TimedOut, kill = KillError, drain = Drained\<rparr> 120
       = Inr (''ERROR'', 0)
   \<and> clique_benchmark_directory (example_config False)
        (example_clique_world\<lparr>cw_cliquer := \<lambda>path.
           (\<lparr>popen = Launched, communicate = TimedOut, kill = KillError, drain = Drained\<rparr>, 120)\<rparr>)
        None [''g/a.clq'', ''g/b.clq''] ''2024-01-01 10:00:00'' ''2024-01-01 10:05:00''
       = Inl OtherException"
proof -
  have r: "run_cliquer 120 \<lparr>popen = Launched, communicate = TimedOut, kill = KillError, drain = Drained\<rparr> 120
       = Inl OtherException"
    by (simp add: run_cliquer_def run_cliquer_body_def)
  have s: "clique_run_ursa 120 \<lparr>popen = Launched, communicate = TimedOut, kill = KillError, drain = Drained\<rparr> 120
       = Inr (''ERROR'', 0, 0)
   \<and> sat_run_ursa 120 \<lparr>popen = Launched, communicate = TimedOut, kill = KillError, drain = Drained\<rparr> 120
       = Inr (''ERROR'', 0)
   \<and> run_minisat 120 \<lparr>popen = Launched, communicate = TimedOut, kill = KillError, drain = Drained\<rparr> 120
       = Inr (''ERROR'', 0)"
    by (simp add: clique_run_ursa_def clique_run_ursa_body_def sat_run_ursa_def sat_run_ursa_body_def
      run_minisat_def run_minisat_body_def except_Exception_def)
  have d: "clique_benchmark_directory (example_config False)
        (example_clique_world\<lparr>cw_cliquer := \<lambda>path.
           (\<lparr>popen = Launched, communicate = TimedOut, kill = KillError, drain = Drained\<rparr>, 120)\<rparr>)
        None [''g/a.clq'', ''g/b.clq''] ''2024-01-01 10:00:00'' ''2024-01-01 10:05:00''
       = Inl OtherException"
    by code_simp
  from r s d show ?thesis by blast
qed

subsection \<open>C9: the terminator of a clause line\<close>



subsection \<open>C4: when the parser fails\<close>

lemma graph_line_bad_header:
  assumes "startswith (py_strip l) ''p edge'' \<or> startswith (py_strip l) ''p col''"
    and "isl (int_at (py_split (py_strip l)) 2) \<or> isl (int_at (py_split (py_strip l)) 3)"
  shows "isl (graph_line st l)"
proof -
  obtain nv ne es where st: "st = (nv, ne, es)" by (cases st) auto
  from assms(1) have ne: "py_strip l \<noteq> []" and nc: "\<not> startswith (py_strip l) ''c''"
    by (auto simp: startswith_def prefix_def)
  show ?thesis
    using assms ne nc unfolding graph_line_def st
    by (auto simp: Let_def split: sum.splits)
qed

lemma graph_lines_fail:
  "l \<in> set ls \<Longrightarrow> (\<And>st. isl (graph_line st l)) \<Longrightarrow> isl (graph_lines st ls)"
proof (induction ls arbitrary: st)
  case Nil
  then show ?case by simp
next
  case (Cons a ls)
  show ?case
  proof (cases "graph_line st a")
    case (Inl e)
    then show ?thesis by simp
  next
    case (Inr st')
    with Cons.prems(2) [of st] have "a \<noteq> l" by auto
    with Cons.prems(1) have "l \<in> set ls" by simp
    from Cons.IH [OF this Cons.prems(2)] Inr show ?thesis by simp
  qed
qed

lemma cnf_line_bad_header:
  assumes "startswith (py_strip l) ''p cnf''"
    and "isl (int_at (py_split (py_strip l)) 2) \<or> isl (int_at (py_split (py_strip l)) 3)"
  shows "isl (cnf_line st l)"
proof -
  obtain nv ne es where st: "st = (nv, ne, es)" by (cases st) auto
  from assms(1) have ne: "py_strip l \<noteq> []" and nc: "\<not> startswith (py_strip l) ''c''"
    and np: "\<not> startswith (py_strip l) ''%''"
    by (auto simp: startswith_def prefix_def)
  show ?thesis
    using assms ne nc np unfolding cnf_line_def st
    by (auto simp: Let_def split: sum.splits)
qed

lemma cnf_lines_fail:
  "l \<in> set ls \<Longrightarrow> (\<And>st. isl (cnf_line st l)) \<Longrightarrow> isl (cnf_lines st ls)"
proof (induction ls arbitrary: st)
  case Nil
  then show ?case by simp
next
  case (Cons a ls)
  show ?case
  proof (cases "cnf_line st a")
    case (Inl e)
    then show ?thesis by simp
  next
    case (Inr st')
    with Cons.prems(2) [of st] have "a \<noteq> l" by auto
    with Cons.prems(1) have "l \<in> set ls" by simp
    from Cons.IH [OF this Cons.prems(2)] Inr show ?thesis by simp
  qed
qed

lemma graph_line_readable:
  assumes "\<not> startswith (py_strip l) ''p edge''" and "\<not> startswith (py_strip l) ''p col''"
    and "startswith (py_strip l) ''e '' \<and> 3 \<le> length (py_split (py_strip l))
           \<longrightarrow> \<not> isl (int_at (py_split (py_strip l)) 1) \<and> \<not> isl (int_at (py_split (py_strip l)) 2)"
  shows "\<exists>es'. graph_line (nv, ne, es) l = Inr (nv, ne, es')"
  using assms unfolding graph_line_def
  by (auto simp: Let_def split: sum.splits)

lemma graph_lines_readable:
  assumes "\<forall>k \<in> set ls.
             \<not> startswith (py_strip k) ''p edge'' \<and> \<not> startswith (py_strip k) ''p col''
           \<and> (startswith (py_strip k) ''e '' \<and> 3 \<le> length (py_split (py_strip k))
                \<longrightarrow> \<not> isl (int_at (py_split (py_strip k)) 1)
                  \<and> \<not> isl (int_at (py_split (py_strip k)) 2))"
  shows "\<exists>es'. graph_lines (nv, ne, es) ls = Inr (nv, ne, es')"
  using assms
proof (induction ls arbitrary: es)
  case Nil
  then show ?case by simp
next
  case (Cons a ls)
  from Cons.prems obtain es1 where a: "graph_line (nv, ne, es) a = Inr (nv, ne, es1)"
    using graph_line_readable [of a nv ne es] by auto
  from Cons.prems have "\<forall>k \<in> set ls.
             \<not> startswith (py_strip k) ''p edge'' \<and> \<not> startswith (py_strip k) ''p col''
           \<and> (startswith (py_strip k) ''e '' \<and> 3 \<le> length (py_split (py_strip k))
                \<longrightarrow> \<not> isl (int_at (py_split (py_strip k)) 1)
                  \<and> \<not> isl (int_at (py_split (py_strip k)) 2))"
    by simp
  from Cons.IH [OF this, of es1] a show ?case by simp
qed

lemma cnf_line_readable:
  assumes "\<not> startswith (py_strip l) ''p cnf''"
    and "py_strip l \<noteq> [] \<and> \<not> startswith (py_strip l) ''c'' \<and> \<not> startswith (py_strip l) ''%''
           \<and> \<not> startswith (py_strip l) ''p''
           \<longrightarrow> \<not> isl (clause_literals (py_strip l))"
  shows "\<exists>cs'. cnf_line (nv, nc, cs) l = Inr (nv, nc, cs')"
  using assms unfolding cnf_line_def
  by (auto simp: Let_def split: sum.splits)

lemma cnf_lines_readable:
  assumes "\<forall>k \<in> set ls.
             \<not> startswith (py_strip k) ''p cnf''
           \<and> (py_strip k \<noteq> [] \<and> \<not> startswith (py_strip k) ''c'' \<and> \<not> startswith (py_strip k) ''%''
                \<and> \<not> startswith (py_strip k) ''p''
                \<longrightarrow> \<not> isl (clause_literals (py_strip k)))"
  shows "\<exists>cs'. cnf_lines (nv, nc, cs) ls = Inr (nv, nc, cs')"
  using assms
proof (induction ls arbitrary: cs)
  case Nil
  then show ?case by simp
next
  case (Cons a ls)
  from Cons.prems obtain cs1 where a: "cnf_line (nv, nc, cs) a = Inr (nv, nc, cs1)"
    using cnf_line_readable [of a nv nc cs] by auto
  from Cons.prems have "\<forall>k \<in> set ls.
             \<not> startswith (py_strip k) ''p cnf''
           \<and> (py_strip k \<noteq> [] \<and> \<not> startswith (py_strip k) ''c'' \<and> \<not> startswith (py_strip k) ''%''
                \<and> \<not> startswith (py_strip k) ''p''
                \<longrightarrow> \<not> isl (clause_literals (py_strip k)))"
    by simp
  from Cons.IH [OF this, of cs1] a show ?case by simp
qed

lemma clique_unparsed_is_skipped:
  "cw_read_file w f = Some content \<Longrightarrow> isl (parse_dimacs_graph content) \<Longrightarrow>
   clique_benchmark_file cfg w P f = Inr None"
  by (auto simp: clique_benchmark_file_def Let_def split: sum.splits)

lemma sat_unparsed_is_skipped:
  "sw_read_file w f = Some content \<Longrightarrow> isl (parse_dimacs content) \<Longrightarrow>
   sat_benchmark_file cfg w P f = Inr None"
  by (auto simp: sat_benchmark_file_def Let_def split: sum.splits)

text \<open>
  Claim C4 says that parsing fails when the header line is absent. It does not: the
  declared counts start at zero and a text without a header line is read with both
  counts zero, by both parsers.
\<close>

theorem missing_header_parses_counterexample:
  "parse_dimacs_graph ''e 1 2'' = Inr (0, 0, [(1, 2)])
   \<and> parse_dimacs ''1 -2 0'' = Inr (0, 0, [[1, - 2]])"
  by code_simp

text \<open>
  Claim C4, amended. Parsing fails for every input that has a header line, \<^verbatim>\<open>p edge\<close>
  or \<^verbatim>\<open>p col\<close> for a graph and \<^verbatim>\<open>p cnf\<close> for a CNF, whose third or fourth token is
  missing or cannot be read as an integer; and when parsing fails, \<^verbatim>\<open>benchmark_file\<close>
  skips the instance (it returns \<^verbatim>\<open>None\<close>). An input with no header line is not
  rejected for that: when each of its edge lines with at least three tokens has two
  readable endpoints (for a CNF, when each of its clause lines has readable literals), it
  parses, with both declared counts zero.
\<close>

theorem parse_fails_on_unreadable_header_count:
  "(l \<in> set (py_split_char CHR 0x0A (py_strip content))
      \<and> (startswith (py_strip l) ''p edge'' \<or> startswith (py_strip l) ''p col'')
      \<and> (isl (int_at (py_split (py_strip l)) 2) \<or> isl (int_at (py_split (py_strip l)) 3))
      \<longrightarrow> isl (parse_dimacs_graph content))
   \<and> (l \<in> set (py_split_char CHR 0x0A (py_strip content))
      \<and> startswith (py_strip l) ''p cnf''
      \<and> (isl (int_at (py_split (py_strip l)) 2) \<or> isl (int_at (py_split (py_strip l)) 3))
      \<longrightarrow> isl (parse_dimacs content))
   \<and> (cw_read_file cw f = Some content \<and> isl (parse_dimacs_graph content)
      \<longrightarrow> clique_benchmark_file cfg cw P f = Inr None)
   \<and> (sw_read_file sw f = Some content \<and> isl (parse_dimacs content)
      \<longrightarrow> sat_benchmark_file cfg sw P f = Inr None)
   \<and> ((\<forall>k \<in> set (py_split_char CHR 0x0A (py_strip content)).
           \<not> startswith (py_strip k) ''p edge'' \<and> \<not> startswith (py_strip k) ''p col''
         \<and> (startswith (py_strip k) ''e '' \<and> 3 \<le> length (py_split (py_strip k))
              \<longrightarrow> \<not> isl (int_at (py_split (py_strip k)) 1)
                \<and> \<not> isl (int_at (py_split (py_strip k)) 2)))
      \<longrightarrow> (\<exists>es. parse_dimacs_graph content = Inr (0, 0, es)))
   \<and> ((\<forall>k \<in> set (py_split_char CHR 0x0A (py_strip content)).
           \<not> startswith (py_strip k) ''p cnf''
         \<and> (py_strip k \<noteq> [] \<and> \<not> startswith (py_strip k) ''c'' \<and> \<not> startswith (py_strip k) ''%''
              \<and> \<not> startswith (py_strip k) ''p''
              \<longrightarrow> \<not> isl (clause_literals (py_strip k))))
      \<longrightarrow> (\<exists>cs. parse_dimacs content = Inr (0, 0, cs)))"
proof (intro conjI impI)
  assume a: "l \<in> set (py_split_char CHR 0x0A (py_strip content))
      \<and> (startswith (py_strip l) ''p edge'' \<or> startswith (py_strip l) ''p col'')
      \<and> (isl (int_at (py_split (py_strip l)) 2) \<or> isl (int_at (py_split (py_strip l)) 3))"
  then have "\<And>st. isl (graph_line st l)" by (simp add: graph_line_bad_header)
  moreover from a have "l \<in> set (py_split_char CHR 0x0A (py_strip content))" by simp
  ultimately show "isl (parse_dimacs_graph content)"
    unfolding parse_dimacs_graph_def by (rule graph_lines_fail [rotated])
next
  assume a: "l \<in> set (py_split_char CHR 0x0A (py_strip content))
      \<and> startswith (py_strip l) ''p cnf''
      \<and> (isl (int_at (py_split (py_strip l)) 2) \<or> isl (int_at (py_split (py_strip l)) 3))"
  then have "\<And>st. isl (cnf_line st l)" by (simp add: cnf_line_bad_header)
  moreover from a have "l \<in> set (py_split_char CHR 0x0A (py_strip content))" by simp
  ultimately show "isl (parse_dimacs content)"
    unfolding parse_dimacs_def by (rule cnf_lines_fail [rotated])
next
  assume "cw_read_file cw f = Some content \<and> isl (parse_dimacs_graph content)"
  then show "clique_benchmark_file cfg cw P f = Inr None"
    by (simp add: clique_unparsed_is_skipped)
next
  assume "sw_read_file sw f = Some content \<and> isl (parse_dimacs content)"
  then show "sat_benchmark_file cfg sw P f = Inr None"
    by (simp add: sat_unparsed_is_skipped)
next
  assume "\<forall>k \<in> set (py_split_char CHR 0x0A (py_strip content)).
           \<not> startswith (py_strip k) ''p edge'' \<and> \<not> startswith (py_strip k) ''p col''
         \<and> (startswith (py_strip k) ''e '' \<and> 3 \<le> length (py_split (py_strip k))
              \<longrightarrow> \<not> isl (int_at (py_split (py_strip k)) 1)
                \<and> \<not> isl (int_at (py_split (py_strip k)) 2))"
  then show "\<exists>es. parse_dimacs_graph content = Inr (0, 0, es)"
    unfolding parse_dimacs_graph_def by (rule graph_lines_readable)
next
  assume "\<forall>k \<in> set (py_split_char CHR 0x0A (py_strip content)).
           \<not> startswith (py_strip k) ''p cnf''
         \<and> (py_strip k \<noteq> [] \<and> \<not> startswith (py_strip k) ''c'' \<and> \<not> startswith (py_strip k) ''%''
              \<and> \<not> startswith (py_strip k) ''p''
              \<longrightarrow> \<not> isl (clause_literals (py_strip k)))"
  then show "\<exists>cs. parse_dimacs content = Inr (0, 0, cs)"
    unfolding parse_dimacs_def by (rule cnf_lines_readable)
qed

theorem parse_fails_on_unreadable_header_count_witness:
  "''p edge x 2'' \<in> set (py_split_char CHR 0x0A (py_strip ''p edge x 2\<newline>e 1 2''))
   \<and> startswith (py_strip ''p edge x 2'') ''p edge''
   \<and> isl (int_at (py_split (py_strip ''p edge x 2'')) 2)
   \<and> isl (parse_dimacs_graph ''p edge x 2\<newline>e 1 2'')
   \<and> ''p cnf 2'' \<in> set (py_split_char CHR 0x0A (py_strip ''p cnf 2\<newline>1 -2 0''))
   \<and> startswith (py_strip ''p cnf 2'') ''p cnf''
   \<and> isl (int_at (py_split (py_strip ''p cnf 2'')) 3)
   \<and> isl (parse_dimacs ''p cnf 2\<newline>1 -2 0'')
   \<and> clique_benchmark_file (example_config False)
        (example_clique_world\<lparr>cw_read_file := \<lambda>path. Some ''p edge x 2\<newline>e 1 2''\<rparr>) {} ''g/a.clq''
       = Inr None
   \<and> sat_benchmark_file (example_config False)
        (example_sat_world\<lparr>sw_read_file := \<lambda>path. Some ''p cnf 2\<newline>1 -2 0''\<rparr>) {} ''d/a.cnf''
       = Inr None
   \<and> (\<exists>es. parse_dimacs_graph ''e 1 2\<newline>c no header\<newline>e 2 3'' = Inr (0, 0, es))
   \<and> (\<exists>cs. parse_dimacs ''1 -2 0\<newline>c no header\<newline>2 0'' = Inr (0, 0, cs))"
proof -
  have g1: "''p edge x 2'' \<in> set (py_split_char CHR 0x0A (py_strip ''p edge x 2\<newline>e 1 2''))"
    by code_simp
  have g2: "startswith (py_strip ''p edge x 2'') ''p edge''" by code_simp
  have g3: "isl (int_at (py_split (py_strip ''p edge x 2'')) 2)" by code_simp
  have c1: "''p cnf 2'' \<in> set (py_split_char CHR 0x0A (py_strip ''p cnf 2\<newline>1 -2 0''))"
    by code_simp
  have c2: "startswith (py_strip ''p cnf 2'') ''p cnf''" by code_simp
  have c3: "isl (int_at (py_split (py_strip ''p cnf 2'')) 3)" by code_simp
  have r1: "cw_read_file (example_clique_world\<lparr>cw_read_file := \<lambda>path. Some ''p edge x 2\<newline>e 1 2''\<rparr>)
              ''g/a.clq'' = Some ''p edge x 2\<newline>e 1 2''"
    by simp
  have r2: "sw_read_file (example_sat_world\<lparr>sw_read_file := \<lambda>path. Some ''p cnf 2\<newline>1 -2 0''\<rparr>)
              ''d/a.cnf'' = Some ''p cnf 2\<newline>1 -2 0''"
    by simp
  have n1: "\<forall>k \<in> set (py_split_char CHR 0x0A (py_strip ''e 1 2\<newline>c no header\<newline>e 2 3'')).
           \<not> startswith (py_strip k) ''p edge'' \<and> \<not> startswith (py_strip k) ''p col''
         \<and> (startswith (py_strip k) ''e '' \<and> 3 \<le> length (py_split (py_strip k))
              \<longrightarrow> \<not> isl (int_at (py_split (py_strip k)) 1)
                \<and> \<not> isl (int_at (py_split (py_strip k)) 2))"
    by code_simp
  have n2: "\<forall>k \<in> set (py_split_char CHR 0x0A (py_strip ''1 -2 0\<newline>c no header\<newline>2 0'')).
           \<not> startswith (py_strip k) ''p cnf''
         \<and> (py_strip k \<noteq> [] \<and> \<not> startswith (py_strip k) ''c'' \<and> \<not> startswith (py_strip k) ''%''
              \<and> \<not> startswith (py_strip k) ''p''
              \<longrightarrow> \<not> isl (clause_literals (py_strip k)))"
    by code_simp
  have p1: "isl (parse_dimacs_graph ''p edge x 2\<newline>e 1 2'')"
    using parse_fails_on_unreadable_header_count
        [where l = "''p edge x 2''" and content = "''p edge x 2\<newline>e 1 2''"] g1 g2 g3
    by blast
  have p2: "isl (parse_dimacs ''p cnf 2\<newline>1 -2 0'')"
    using parse_fails_on_unreadable_header_count
        [where l = "''p cnf 2''" and content = "''p cnf 2\<newline>1 -2 0''"] c1 c2 c3
    by blast
  have s1: "clique_benchmark_file (example_config False)
        (example_clique_world\<lparr>cw_read_file := \<lambda>path. Some ''p edge x 2\<newline>e 1 2''\<rparr>) {} ''g/a.clq''
       = Inr None"
    using parse_fails_on_unreadable_header_count
        [where content = "''p edge x 2\<newline>e 1 2''"
           and cw = "example_clique_world\<lparr>cw_read_file := \<lambda>path. Some ''p edge x 2\<newline>e 1 2''\<rparr>"
           and f = "''g/a.clq''" and cfg = "example_config False" and P = "{}"] r1 p1
    by blast
  have s2: "sat_benchmark_file (example_config False)
        (example_sat_world\<lparr>sw_read_file := \<lambda>path. Some ''p cnf 2\<newline>1 -2 0''\<rparr>) {} ''d/a.cnf''
       = Inr None"
    using parse_fails_on_unreadable_header_count
        [where content = "''p cnf 2\<newline>1 -2 0''"
           and sw = "example_sat_world\<lparr>sw_read_file := \<lambda>path. Some ''p cnf 2\<newline>1 -2 0''\<rparr>"
           and f = "''d/a.cnf''" and cfg = "example_config False" and P = "{}"] r2 p2
    by blast
  have e1: "\<exists>es. parse_dimacs_graph ''e 1 2\<newline>c no header\<newline>e 2 3'' = Inr (0, 0, es)"
    using parse_fails_on_unreadable_header_count
        [where content = "''e 1 2\<newline>c no header\<newline>e 2 3''"] n1
    by blast
  have e2: "\<exists>cs. parse_dimacs ''1 -2 0\<newline>c no header\<newline>2 0'' = Inr (0, 0, cs)"
    using parse_fails_on_unreadable_header_count
        [where content = "''1 -2 0\<newline>c no header\<newline>2 0''"] n2
    by blast
  from g1 g2 g3 p1 c1 c2 c3 p2 s1 s2 e1 e2 show ?thesis by blast
qed

subsection \<open>C10: the counters of the clique statistics\<close>

lemma dict_get_set: "dict_get (dict_set d k v) k' = (if k' = k then Inr v else dict_get d k')"
  by (induction d) (auto simp: dict_get_def)

lemma keys_dict_set: "k \<in> fst ` set d \<Longrightarrow> map fst (dict_set d k v) = map fst d"
  by (induction d) force+

lemma dict_get_Inr_key: "dict_get d k = Inr v \<Longrightarrow> k \<in> fst ` set d"
  by (auto simp: dict_get_def split: option.splits dest: map_of_SomeD intro: rev_image_eqI)

lemma dict_incr_Inr:
  assumes "dict_incr d k = Inr d'"
  shows "dict_get d' k' = (if k' = k then map_sum id (\<lambda>n. n + 1) (dict_get d k) else dict_get d k')"
    and "map fst d' = map fst d"
  using assms
  by (auto simp: dict_incr_def dict_get_set keys_dict_set dict_get_Inr_key split: sum.splits)

text \<open>
  Claim C10. In \<^verbatim>\<open>update_stats\<close> of the clique driver, a URSA status (and, with a
  reduction template, a reduction status) that is none of \<^verbatim>\<open>FOUND\<close>,
  \<^verbatim>\<open>NOT_FOUND\<close>, \<^verbatim>\<open>TIMEOUT\<close> adds one to that solver's \<^verbatim>\<open>error\<close> counter and
  leaves its other counters as they were; a Cliquer status that is neither \<^verbatim>\<open>FOUND\<close>
  nor \<^verbatim>\<open>TIMEOUT\<close> adds one to Cliquer's \<^verbatim>\<open>error\<close> counter. The counters are
  \<^verbatim>\<open>found\<close>, \<^verbatim>\<open>not_found\<close>, \<^verbatim>\<open>timeout\<close>, \<^verbatim>\<open>error\<close> for URSA and the reduction
  and \<^verbatim>\<open>found\<close>, \<^verbatim>\<open>timeout\<close>, \<^verbatim>\<open>error\<close> for Cliquer, and \<^verbatim>\<open>update_stats\<close> adds
  none: there is no counter for \<^verbatim>\<open>UNKNOWN\<close> and none for Cliquer's \<^verbatim>\<open>NOT_FOUND\<close>.
  The status is compared after \<^verbatim>\<open>lower()\<close>.
\<close>

theorem clique_statistics_collapse_into_error:
  assumes "clique_update_stats stats result has_reduction = Inr stats'"
  shows "(py_lower (r_ursa_status result) \<notin> {''found'', ''not_found'', ''timeout''} \<longrightarrow>
            dict_get (cs_ursa stats') ''error''
              = map_sum id (\<lambda>n. n + 1) (dict_get (cs_ursa stats) ''error'')
          \<and> (\<forall>k. k \<noteq> ''error'' \<longrightarrow> dict_get (cs_ursa stats') k = dict_get (cs_ursa stats) k))
       \<and> (py_lower (r_cliquer_status result) \<notin> {''found'', ''timeout''} \<longrightarrow>
            dict_get (cs_cliquer stats') ''error''
              = map_sum id (\<lambda>n. n + 1) (dict_get (cs_cliquer stats) ''error'')
          \<and> (\<forall>k. k \<noteq> ''error'' \<longrightarrow> dict_get (cs_cliquer stats') k = dict_get (cs_cliquer stats) k))
       \<and> (has_reduction \<longrightarrow> (\<forall>red. r_reduction result = Some red
            \<and> py_lower (fst red) \<notin> {''found'', ''not_found'', ''timeout''} \<longrightarrow>
            dict_get (cs_reduction stats') ''error''
              = map_sum id (\<lambda>n. n + 1) (dict_get (cs_reduction stats) ''error'')
          \<and> (\<forall>k. k \<noteq> ''error'' \<longrightarrow> dict_get (cs_reduction stats') k = dict_get (cs_reduction stats) k)))
       \<and> map fst (cs_ursa stats') = map fst (cs_ursa stats)
       \<and> map fst (cs_cliquer stats') = map fst (cs_cliquer stats)
       \<and> map fst (cs_reduction stats') = map fst (cs_reduction stats)
       \<and> map fst (cs_ursa clique_initialize_empty_stats) = [''found'', ''not_found'', ''timeout'', ''error'']
       \<and> map fst (cs_cliquer clique_initialize_empty_stats) = [''found'', ''timeout'', ''error'']
       \<and> map fst (cs_reduction clique_initialize_empty_stats)
           = [''found'', ''not_found'', ''timeout'', ''error'']"
proof -
  from assms obtain u c where
    u: "dict_incr (cs_ursa stats) (ursa_counter (r_ursa_status result)) = Inr u" and
    c: "dict_incr (cs_cliquer stats) (cliquer_counter (r_cliquer_status result)) = Inr c" and
    su: "cs_ursa stats' = u" and sc: "cs_cliquer stats' = c"
    by (auto simp: clique_update_stats_def Let_def split: sum.splits if_splits option.splits)
  have red: "\<not> has_reduction \<Longrightarrow> cs_reduction stats' = cs_reduction stats"
    using assms
    by (auto simp: clique_update_stats_def Let_def split: sum.splits if_splits option.splits)
  have red': "has_reduction \<Longrightarrow> \<exists>red. r_reduction result = Some red
      \<and> dict_incr (cs_reduction stats) (ursa_counter (fst red)) = Inr (cs_reduction stats')"
    using assms
    by (auto simp: clique_update_stats_def Let_def split: sum.splits if_splits option.splits)
  have ue: "\<And>s. py_lower s \<notin> {''found'', ''not_found'', ''timeout''} \<Longrightarrow> ursa_counter s = ''error''"
    by (simp add: ursa_counter_def Let_def)
  have ce: "\<And>s. py_lower s \<notin> {''found'', ''timeout''} \<Longrightarrow> cliquer_counter s = ''error''"
    by (simp add: cliquer_counter_def Let_def)
  show ?thesis
  proof (intro conjI impI allI)
    assume "py_lower (r_ursa_status result) \<notin> {''found'', ''not_found'', ''timeout''}"
    then have k: "ursa_counter (r_ursa_status result) = ''error''" by (rule ue)
    show "dict_get (cs_ursa stats') ''error'' = map_sum id (\<lambda>n. n + 1) (dict_get (cs_ursa stats) ''error'')"
      using dict_incr_Inr(1) [OF u] k su by simp
    fix k' :: string assume "k' \<noteq> ''error''"
    then show "dict_get (cs_ursa stats') k' = dict_get (cs_ursa stats) k'"
      using dict_incr_Inr(1) [OF u] k su by simp
  next
    assume "py_lower (r_cliquer_status result) \<notin> {''found'', ''timeout''}"
    then have k: "cliquer_counter (r_cliquer_status result) = ''error''" by (rule ce)
    show "dict_get (cs_cliquer stats') ''error'' = map_sum id (\<lambda>n. n + 1) (dict_get (cs_cliquer stats) ''error'')"
      using dict_incr_Inr(1) [OF c] k sc by simp
    fix k' :: string assume "k' \<noteq> ''error''"
    then show "dict_get (cs_cliquer stats') k' = dict_get (cs_cliquer stats) k'"
      using dict_incr_Inr(1) [OF c] k sc by simp
  next
    fix red
    assume hr: has_reduction
      and a: "r_reduction result = Some red \<and> py_lower (fst red) \<notin> {''found'', ''not_found'', ''timeout''}"
    from red' [OF hr] a have i: "dict_incr (cs_reduction stats) (ursa_counter (fst red)) = Inr (cs_reduction stats')"
      by auto
    from a have k: "ursa_counter (fst red) = ''error''" by (simp add: ue)
    show "dict_get (cs_reduction stats') ''error'' = map_sum id (\<lambda>n. n + 1) (dict_get (cs_reduction stats) ''error'')"
      using dict_incr_Inr(1) [OF i] k by simp
    fix k' :: string assume "k' \<noteq> ''error''"
    then show "dict_get (cs_reduction stats') k' = dict_get (cs_reduction stats) k'"
      using dict_incr_Inr(1) [OF i] k by simp
  next
    show "map fst (cs_ursa stats') = map fst (cs_ursa stats)"
      using dict_incr_Inr(2) [OF u] su by simp
    show "map fst (cs_cliquer stats') = map fst (cs_cliquer stats)"
      using dict_incr_Inr(2) [OF c] sc by simp
    show "map fst (cs_reduction stats') = map fst (cs_reduction stats)"
    proof (cases has_reduction)
      case True
      from red' [OF True] obtain red where
        "dict_incr (cs_reduction stats) (ursa_counter (fst red)) = Inr (cs_reduction stats')" by auto
      from dict_incr_Inr(2) [OF this] show ?thesis .
    next
      case False
      with red show ?thesis by simp
    qed
  qed (simp_all add: clique_initialize_empty_stats_def)
qed

theorem clique_statistics_collapse_into_error_witness:
  "clique_update_stats clique_initialize_empty_stats
     \<lparr>r_file = ''a.clq'', r_vertices = 3, r_edges = 2, r_ursa_status = ''UNKNOWN'',
      r_ursa_time = 1, r_ursa_clique = 0, r_cliquer_status = ''NOT_FOUND'', r_cliquer_time = 1,
      r_cliquer_clique = 0, r_reduction = Some (''ERROR'', 0, 0)\<rparr> True
   = Inr \<lparr>cs_total = 1,
      cs_ursa = [(''found'', 0), (''not_found'', 0), (''timeout'', 0), (''error'', 1)],
      cs_cliquer = [(''found'', 0), (''timeout'', 0), (''error'', 1)],
      cs_reduction = [(''found'', 0), (''not_found'', 0), (''timeout'', 0), (''error'', 1)]\<rparr>
   \<and> py_lower ''UNKNOWN'' \<notin> {''found'', ''not_found'', ''timeout''}
   \<and> py_lower ''NOT_FOUND'' \<notin> {''found'', ''timeout''}
   \<and> py_lower ''ERROR'' \<notin> {''found'', ''not_found'', ''timeout''}
   \<and> dict_get [(''found'', 0), (''not_found'', 0), (''timeout'', 0), (''error'', 1)] ''error''
       = map_sum id (\<lambda>n. n + 1)
           (dict_get (cs_ursa clique_initialize_empty_stats) ''error'')
   \<and> dict_get [(''found'', 0), (''timeout'', 0), (''error'', 1)] ''error''
       = map_sum id (\<lambda>n. n + 1)
           (dict_get (cs_cliquer clique_initialize_empty_stats) ''error'')"
proof -
  have run: "clique_update_stats clique_initialize_empty_stats
     \<lparr>r_file = ''a.clq'', r_vertices = 3, r_edges = 2, r_ursa_status = ''UNKNOWN'',
      r_ursa_time = 1, r_ursa_clique = 0, r_cliquer_status = ''NOT_FOUND'', r_cliquer_time = 1,
      r_cliquer_clique = 0, r_reduction = Some (''ERROR'', 0, 0)\<rparr> True
   = Inr \<lparr>cs_total = 1,
      cs_ursa = [(''found'', 0), (''not_found'', 0), (''timeout'', 0), (''error'', 1)],
      cs_cliquer = [(''found'', 0), (''timeout'', 0), (''error'', 1)],
      cs_reduction = [(''found'', 0), (''not_found'', 0), (''timeout'', 0), (''error'', 1)]\<rparr>"
    by code_simp
  have l1: "py_lower ''UNKNOWN'' \<notin> {''found'', ''not_found'', ''timeout''}" by code_simp
  have l2: "py_lower ''NOT_FOUND'' \<notin> {''found'', ''timeout''}" by code_simp
  have l3: "py_lower ''ERROR'' \<notin> {''found'', ''not_found'', ''timeout''}" by code_simp
  show ?thesis
    using clique_statistics_collapse_into_error [OF run] run l1 l2 l3 by simp
qed

subsection \<open>C2: running a finished batch again\<close>

text \<open>
  Claim C2, on the SAT driver. A batch of one unsatisfiable instance is run to its end;
  the report counts UNSAT 1 and SAT 0 for URSA and for MiniSat. The same batch is run
  again on that report with the resume flag: no row is added, and the statistics that are
  written count SAT 1 and UNSAT 0. When the report is read back, \<^verbatim>\<open>_parse_stat_line\<close>
  tests \<^verbatim>\<open>"SAT instances:" in line\<close> first, which also holds for the line
  \<^verbatim>\<open>UNSAT instances:   1\<close>, so that line overwrites the SAT counter and the UNSAT
  counter is never read.
\<close>

theorem sat_rerun_changes_counts:
  "sat_benchmark_directory (example_config False) example_sat_world None [''d/a.cnf'']
       ''2024-01-01 10:00:00'' ''2024-01-01 10:00:05''
     = Inr (''URSA Benchmark (solver_template) vs MiniSat\<newline>'' @
            ''===============================================\<newline>'' @
            ''Started: 2024-01-01 10:00:00\<newline>'' @
            ''\<newline>'' @
            ''Category     | File                                | Variables | Clauses  | URSA     | MiniSat  | URSA Time  | MiniSat Time\<newline>'' @
            ''---------------------------------------------------------------------------------------------------------------------------\<newline>'' @
            ''UNKNOWN      | a.cnf                               | 1         | 2        | UNSAT    | UNSAT    | 1.000000   | 2.000000    \<newline>'' @
            ''\<newline>'' @
            ''FINAL STATISTICS:\<newline>'' @
            ''=================\<newline>'' @
            ''\<newline>'' @
            ''URSA Results:\<newline>'' @
            ''SAT instances:     0\<newline>'' @
            ''UNSAT instances:   1\<newline>'' @
            ''UNKNOWN instances: 0\<newline>'' @
            ''TIMEOUT instances: 0\<newline>'' @
            ''ERROR instances:   0\<newline>'' @
            ''\<newline>'' @
            ''MiniSat Results:\<newline>'' @
            ''SAT instances:     0\<newline>'' @
            ''UNSAT instances:   1\<newline>'' @
            ''TIMEOUT instances: 0\<newline>'' @
            ''ERROR instances:   0\<newline>'' @
            ''\<newline>'' @
            ''Total instances:   1\<newline>'' @
            ''Completed: 2024-01-01 10:00:05\<newline>'',
            \<lparr>ss_total = 1,
             ss_ursa = [(''SAT'', 0), (''UNSAT'', 1), (''TIMEOUT'', 0), (''ERROR'', 0), (''UNKNOWN'', 0)],
             ss_minisat = [(''SAT'', 0), (''UNSAT'', 1), (''TIMEOUT'', 0), (''ERROR'', 0)],
             ss_reduction = [(''SAT'', 0), (''UNSAT'', 0), (''TIMEOUT'', 0), (''ERROR'', 0), (''UNKNOWN'', 0)]\<rparr>)
   \<and> sat_benchmark_directory (example_config True) example_sat_world
       (Some (''URSA Benchmark (solver_template) vs MiniSat\<newline>'' @
             ''===============================================\<newline>'' @
             ''Started: 2024-01-01 10:00:00\<newline>'' @
             ''\<newline>'' @
             ''Category     | File                                | Variables | Clauses  | URSA     | MiniSat  | URSA Time  | MiniSat Time\<newline>'' @
             ''---------------------------------------------------------------------------------------------------------------------------\<newline>'' @
             ''UNKNOWN      | a.cnf                               | 1         | 2        | UNSAT    | UNSAT    | 1.000000   | 2.000000    \<newline>'' @
             ''\<newline>'' @
             ''FINAL STATISTICS:\<newline>'' @
             ''=================\<newline>'' @
             ''\<newline>'' @
             ''URSA Results:\<newline>'' @
             ''SAT instances:     0\<newline>'' @
             ''UNSAT instances:   1\<newline>'' @
             ''UNKNOWN instances: 0\<newline>'' @
             ''TIMEOUT instances: 0\<newline>'' @
             ''ERROR instances:   0\<newline>'' @
             ''\<newline>'' @
             ''MiniSat Results:\<newline>'' @
             ''SAT instances:     0\<newline>'' @
             ''UNSAT instances:   1\<newline>'' @
             ''TIMEOUT instances: 0\<newline>'' @
             ''ERROR instances:   0\<newline>'' @
             ''\<newline>'' @
             ''Total instances:   1\<newline>'' @
             ''Completed: 2024-01-01 10:00:05\<newline>''))
       [''d/a.cnf''] ''2024-01-01 11:00:00'' ''2024-01-01 11:00:05''
     = Inr (''URSA Benchmark (solver_template) vs MiniSat\<newline>'' @
            ''===============================================\<newline>'' @
            ''Started: 2024-01-01 10:00:00\<newline>'' @
            ''\<newline>'' @
            ''Category     | File                                | Variables | Clauses  | URSA     | MiniSat  | URSA Time  | MiniSat Time\<newline>'' @
            ''---------------------------------------------------------------------------------------------------------------------------\<newline>'' @
            ''UNKNOWN      | a.cnf                               | 1         | 2        | UNSAT    | UNSAT    | 1.000000   | 2.000000    \<newline>'' @
            ''\<newline>'' @
            ''\<newline>'' @
            ''FINAL STATISTICS:\<newline>'' @
            ''=================\<newline>'' @
            ''\<newline>'' @
            ''URSA Results:\<newline>'' @
            ''SAT instances:     1\<newline>'' @
            ''UNSAT instances:   0\<newline>'' @
            ''UNKNOWN instances: 0\<newline>'' @
            ''TIMEOUT instances: 0\<newline>'' @
            ''ERROR instances:   0\<newline>'' @
            ''\<newline>'' @
            ''MiniSat Results:\<newline>'' @
            ''SAT instances:     1\<newline>'' @
            ''UNSAT instances:   0\<newline>'' @
            ''TIMEOUT instances: 0\<newline>'' @
            ''ERROR instances:   0\<newline>'' @
            ''\<newline>'' @
            ''Total instances:   1\<newline>'' @
            ''Completed: 2024-01-01 11:00:05\<newline>'',
            \<lparr>ss_total = 1,
             ss_ursa = [(''SAT'', 1), (''UNSAT'', 0), (''TIMEOUT'', 0), (''ERROR'', 0), (''UNKNOWN'', 0)],
             ss_minisat = [(''SAT'', 1), (''UNSAT'', 0), (''TIMEOUT'', 0), (''ERROR'', 0)],
             ss_reduction = [(''SAT'', 0), (''UNSAT'', 0), (''TIMEOUT'', 0), (''ERROR'', 0), (''UNKNOWN'', 0)]\<rparr>)"
  by code_simp

subsection \<open>C1: resuming an interrupted run\<close>

text \<open>
  Claim C1 fails on a batch of two graphs. Run in one pass, the final statistics count
  two instances. Interrupted after the first instance, the report holds the header and
  one row and no final statistics; the resumed run skips that instance, processes the
  second one, finds no statistics to add to, and writes final statistics that count one
  instance.
\<close>

theorem interrupted_run_loses_counts_counterexample:
  "clique_benchmark_directory (example_config False) example_clique_world None
       [''g/a.clq'', ''g/b.clq''] ''2024-01-01 10:00:00'' ''2024-01-01 10:00:09''
     = Inr (''URSA vs Cliquer Max Clique Benchmark Results\<newline>'' @
            ''=============================================\<newline>'' @
            ''Started: 2024-01-01 10:00:00\<newline>'' @
            ''\<newline>'' @
            ''Category     | File                                | Vertices  | Edges    | URSA         | Cliquer      | URSA Time  | Cliquer Time | URSA Clique  | Cliq. Clique\<newline>'' @
            ''-----------------------------------------------------------------------------------------------------------------------------------------------------------------\<newline>'' @
            ''UNKNOWN      | a.clq                               | 2         | 1        | FOUND        | FOUND        | 1.000000   | 2.000000     | 0            | 2           \<newline>'' @
            ''UNKNOWN      | b.clq                               | 2         | 1        | FOUND        | FOUND        | 1.000000   | 2.000000     | 0            | 2           \<newline>'' @
            ''\<newline>'' @
            ''FINAL STATISTICS:\<newline>'' @
            ''=================\<newline>'' @
            ''\<newline>'' @
            ''URSA Results:\<newline>'' @
            ''Cliques found:     2\<newline>'' @
            ''Not found:         0\<newline>'' @
            ''Timeout:           0\<newline>'' @
            ''Error:             0\<newline>'' @
            ''\<newline>'' @
            ''Cliquer Results:\<newline>'' @
            ''Cliques found:     2\<newline>'' @
            ''Timeout:           0\<newline>'' @
            ''Error:             0\<newline>'' @
            ''\<newline>'' @
            ''Total instances:   2\<newline>'' @
            ''Completed: 2024-01-01 10:00:09\<newline>'',
            \<lparr>cs_total = 2,
             cs_ursa = [(''found'', 2), (''not_found'', 0), (''timeout'', 0), (''error'', 0)],
             cs_cliquer = [(''found'', 2), (''timeout'', 0), (''error'', 0)],
             cs_reduction = [(''found'', 0), (''not_found'', 0), (''timeout'', 0), (''error'', 0)]\<rparr>)
   \<and> clique_interrupted_report (example_config False) example_clique_world None
       [''g/a.clq'', ''g/b.clq''] ''2024-01-01 10:00:00'' 1
     = Inr (''URSA vs Cliquer Max Clique Benchmark Results\<newline>'' @
            ''=============================================\<newline>'' @
            ''Started: 2024-01-01 10:00:00\<newline>'' @
            ''\<newline>'' @
            ''Category     | File                                | Vertices  | Edges    | URSA         | Cliquer      | URSA Time  | Cliquer Time | URSA Clique  | Cliq. Clique\<newline>'' @
            ''-----------------------------------------------------------------------------------------------------------------------------------------------------------------\<newline>'' @
            ''UNKNOWN      | a.clq                               | 2         | 1        | FOUND        | FOUND        | 1.000000   | 2.000000     | 0            | 2           \<newline>'')
   \<and> clique_benchmark_directory (example_config True) example_clique_world
       (Some (''URSA vs Cliquer Max Clique Benchmark Results\<newline>'' @
             ''=============================================\<newline>'' @
             ''Started: 2024-01-01 10:00:00\<newline>'' @
             ''\<newline>'' @
             ''Category     | File                                | Vertices  | Edges    | URSA         | Cliquer      | URSA Time  | Cliquer Time | URSA Clique  | Cliq. Clique\<newline>'' @
             ''-----------------------------------------------------------------------------------------------------------------------------------------------------------------\<newline>'' @
             ''UNKNOWN      | a.clq                               | 2         | 1        | FOUND        | FOUND        | 1.000000   | 2.000000     | 0            | 2           \<newline>''))
       [''g/a.clq'', ''g/b.clq''] ''2024-01-01 11:00:00'' ''2024-01-01 11:00:09''
     = Inr (''URSA vs Cliquer Max Clique Benchmark Results\<newline>'' @
            ''=============================================\<newline>'' @
            ''Started: 2024-01-01 10:00:00\<newline>'' @
            ''\<newline>'' @
            ''Category     | File                                | Vertices  | Edges    | URSA         | Cliquer      | URSA Time  | Cliquer Time | URSA Clique  | Cliq. Clique\<newline>'' @
            ''-----------------------------------------------------------------------------------------------------------------------------------------------------------------\<newline>'' @
            ''UNKNOWN      | a.clq                               | 2         | 1        | FOUND        | FOUND        | 1.000000   | 2.000000     | 0            | 2           \<newline>'' @
            ''UNKNOWN      | b.clq                               | 2         | 1        | FOUND        | FOUND        | 1.000000   | 2.000000     | 0            | 2           \<newline>'' @
            ''\<newline>'' @
            ''FINAL STATISTICS:\<newline>'' @
            ''=================\<newline>'' @
            ''\<newline>'' @
            ''URSA Results:\<newline>'' @
            ''Cliques found:     1\<newline>'' @
            ''Not found:         0\<newline>'' @
            ''Timeout:           0\<newline>'' @
            ''Error:             0\<newline>'' @
            ''\<newline>'' @
            ''Cliquer Results:\<newline>'' @
            ''Cliques found:     1\<newline>'' @
            ''Timeout:           0\<newline>'' @
            ''Error:             0\<newline>'' @
            ''\<newline>'' @
            ''Total instances:   1\<newline>'' @
            ''Completed: 2024-01-01 11:00:09\<newline>'',
            \<lparr>cs_total = 1,
             cs_ursa = [(''found'', 1), (''not_found'', 0), (''timeout'', 0), (''error'', 0)],
             cs_cliquer = [(''found'', 1), (''timeout'', 0), (''error'', 0)],
             cs_reduction = [(''found'', 0), (''not_found'', 0), (''timeout'', 0), (''error'', 0)]\<rparr>)"
  by code_simp

end
